theory Spec2Isabelle
  imports Complex_Main "HOL-Library.AList" "HOL-Library.Multiset" "HOL-Library.Sublist"
    "HOL-Library.Monad_Syntax"
begin

section \<open>JavaScript values\<close>

text \<open>
  Values that reach the program from outside its own typed code (the text-generation
  backend, the persisted blob) are JavaScript values of any shape. \<open>Undefined\<close> is the
  value of an absent property. Numbers are modelled as unbounded integers: every number
  the game computes is an integer (unit steps, +100 experience, a floor division).
  Strings are lists of 8-bit characters: a character stands for the code point of its
  number, so that the strings of the model are those over the code points below 256.
\<close>

datatype jsval =
    Undefined
  | Null
  | Bool bool
  | Num int
  | Str string
  | Arr "jsval list"
  | Obj "(string \<times> jsval) list"

datatype js_error = TypeError | SyntaxError

text \<open>ToBoolean.\<close>

fun truthy :: "jsval \<Rightarrow> bool" where
  "truthy Undefined = False"
| "truthy Null = False"
| "truthy (Bool b) = b"
| "truthy (Num n) = (n \<noteq> 0)"
| "truthy (Str s) = (s \<noteq> [])"
| "truthy (Arr xs) = True"
| "truthy (Obj fs) = True"

text \<open>
  Property read \<open>v.k\<close> for the property names the program uses (none of them is a
  built-in property of a string, number, boolean or array): a TypeError on
  \<open>undefined\<close> and \<open>null\<close>, the stored value on an object, \<open>undefined\<close> otherwise.
\<close>

fun get_prop :: "jsval \<Rightarrow> string \<Rightarrow> js_error + jsval" where
  "get_prop Undefined k = Inl TypeError"
| "get_prop Null k = Inl TypeError"
| "get_prop (Obj fs) k = Inr (case map_of fs k of None \<Rightarrow> Undefined | Some v \<Rightarrow> v)"
| "get_prop v k = Inr Undefined"

text \<open>Decimal rendering of an integer, as a template literal renders a number.\<close>

function string_of_nat :: "nat \<Rightarrow> string" where
  "string_of_nat n =
     (if n < 10 then [''0123456789'' ! n]
      else string_of_nat (n div 10) @ [''0123456789'' ! (n mod 10)])"
  by pat_completeness auto
termination
  by (relation "measure (\<lambda>n. n)") auto

definition string_of_int :: "int \<Rightarrow> string" where
  "string_of_int i = (if i < 0 then CHR ''-'' # string_of_nat (nat (- i)) else string_of_nat (nat i))"

text \<open>\<open>Array.prototype.join\<close> with the default separator.\<close>

fun join_comma :: "string list \<Rightarrow> string" where
  "join_comma [] = []"
| "join_comma [s] = s"
| "join_comma (s # t # ss) = s @ '','' @ join_comma (t # ss)"

text \<open>ToString, as a template literal applies it to an interpolated value.\<close>

fun js_to_string :: "jsval \<Rightarrow> string" where
  "js_to_string Undefined = ''undefined''"
| "js_to_string Null = ''null''"
| "js_to_string (Bool b) = (if b then ''true'' else ''false'')"
| "js_to_string (Num n) = string_of_int n"
| "js_to_string (Str s) = s"
| "js_to_string (Arr xs) =
     join_comma (map (\<lambda>v. if v = Undefined \<or> v = Null then [] else js_to_string v) xs)"
| "js_to_string (Obj fs) = ''[object Object]''"

section \<open>Data model (types.ts)\<close>

datatype BiomeType = DATA_WASTELAND | NEON_FOREST | SERVER_CITY | QUANTUM_FLUX | REALITY_NODE

record Coordinates =
  pos_x :: int
  pos_y :: int

text \<open>
  A tile is a JavaScript object: a property may be absent (\<open>None\<close>), which is what
  spreading an absent tile (\<open>{...undefined, isSolved: true}\<close>) produces. The two
  content fields hold whatever the backend's JSON carried.
\<close>

record TileData =
  tile_id :: "string option"
  tile_x :: "int option"
  tile_y :: "int option"
  biome :: "BiomeType option"
  description :: jsval
  explored :: "bool option"
  hasPuzzle :: "bool option"
  isSolved :: "bool option"
  item :: "string option"
  visualFeature :: jsval

record PlayerState =
  position :: Coordinates
  inventory :: "string list"
  xp :: int
  level :: int

record GameLog =
  log_id :: string
  timestamp :: int
  message :: string
  log_type :: string

record Puzzle =
  puzzle_id :: string
  question :: jsval
  puzzle_type :: jsval
  options :: jsval
  answer :: jsval
  solved :: bool
  groundingUrls :: "(string \<times> string) list option"

text \<open>
  \<open>world\<close> is a JavaScript object used as a dictionary: an association list in
  insertion order, updated with \<open>AList.update\<close> (an existing key keeps its place, a
  new key goes to the end), read with \<open>map_of\<close>.
\<close>

record GameState =
  player :: PlayerState
  world :: "(string \<times> TileData) list"
  logs :: "GameLog list"
  isGenerating :: bool
  activePuzzle :: "Puzzle option"

section \<open>Constants (constants.ts)\<close>

definition XP_PER_PUZZLE :: int where "XP_PER_PUZZLE = 100"
definition XP_PER_LEVEL :: int where "XP_PER_LEVEL = 500"

definition INITIAL_LOG :: "int \<Rightarrow> GameLog" where
  "INITIAL_LOG now =
     \<lparr> log_id = ''init'', timestamp = now,
       message = ''System Initialized. Welcome to the Cortex. Use Arrow Keys to navigate.'',
       log_type = ''info'' \<rparr>"

section \<open>Session controller (App.tsx)\<close>

text \<open>The session \<open>useState\<close> starts from; \<open>now\<close> is the clock at start-up.\<close>

definition initialGameState :: "int \<Rightarrow> GameState" where
  "initialGameState now =
     \<lparr> player = \<lparr> position = \<lparr> pos_x = 0, pos_y = 0 \<rparr>, inventory = [], xp = 0, level = 1 \<rparr>,
       world = [],
       logs = [INITIAL_LOG now],
       isGenerating = False,
       activePuzzle = None \<rparr>"

text \<open>
  Side channels of a handler (sound cues, visual hints, timers) are returned as a list
  of effects; they carry no session state. \<open>SetTimeout e ms\<close> defers \<open>e\<close>.
\<close>

datatype effect =
    PlaySound string
  | TriggerEffect int int string
  | AddLog string string
  | OnSolve bool
  | SetTimeout effect nat

text \<open>The dictionary key \<open>`${x},${y}`\<close>.\<close>

definition tile_key :: "int \<Rightarrow> int \<Rightarrow> string" where
  "tile_key x y = string_of_int x @ '','' @ string_of_int y"

definition empty_tile :: TileData where
  "empty_tile =
     \<lparr> tile_id = None, tile_x = None, tile_y = None, biome = None, description = Undefined,
       explored = None, hasPuzzle = None, isSolved = None, item = None,
       visualFeature = Undefined \<rparr>"

text \<open>\<open>{...t}\<close> for a tile read from the dictionary: no properties when it is absent.\<close>

definition spread_tile :: "TileData option \<Rightarrow> TileData" where
  "spread_tile t = (case t of None \<Rightarrow> empty_tile | Some u \<Rightarrow> u)"

text \<open>Truthiness of an optional boolean property.\<close>

definition flag :: "bool option \<Rightarrow> bool" where
  "flag b = (case b of None \<Rightarrow> False | Some v \<Rightarrow> v)"

text \<open>
  \<open>addLog\<close>: the identity and the timestamp of the entry come from the platform
  (\<open>crypto.randomUUID()\<close>, \<open>Date.now()\<close>) and are parameters.
\<close>

definition addLog :: "string \<Rightarrow> string \<Rightarrow> string \<Rightarrow> int \<Rightarrow> GameState \<Rightarrow> GameState" where
  "addLog msg ty uid now prev =
     prev\<lparr>logs := logs prev @ [\<lparr> log_id = uid, timestamp = now, message = msg, log_type = ty \<rparr>]\<rparr>"

text \<open>
  A handler closes over \<open>gameState\<close>, the session as of the render that created the
  handler, and updates the session through \<open>setGameState(prev => ...)\<close>, which receives
  the session as of the update. Each handler below takes both. The updates a handler
  queues are applied in the order it queues them, once the handler's synchronous code
  has run: what an updater assigns to a local variable of the handler is not yet there
  when the handler's next statement reads it.
\<close>

definition handlePuzzleSolve ::
  "bool \<Rightarrow> string \<Rightarrow> int \<Rightarrow> GameState \<Rightarrow> GameState \<Rightarrow> GameState \<times> effect list" where
  "handlePuzzleSolve success uid now gameState prev =
     (if success \<and> activePuzzle gameState \<noteq> None then
        let x = pos_x (position (player gameState));
            y = pos_y (position (player gameState));
            tid = tile_key x y;
            currentXp = xp (player gameState);
            currentLevel = level (player gameState);
            newXp = currentXp + XP_PER_PUZZLE;
            newLevel = newXp div XP_PER_LEVEL + 1;
            isLevelUp = (newLevel > currentLevel);
            s1 = prev\<lparr> activePuzzle := None,
                        player := (player prev)\<lparr> xp := newXp, level := newLevel \<rparr>,
                        world := AList.update tid
                                   ((spread_tile (map_of (world prev) tid))\<lparr> isSolved := Some True \<rparr>)
                                   (world prev) \<rparr>;
            s2 = addLog (''Logic Gate Bypassed. Data extracted (+'' @ string_of_int XP_PER_PUZZLE @ '' XP).'')
                        ''success'' uid now s1
        in (s2,
            [TriggerEffect x y ''success''] @
            (if isLevelUp then
               [PlaySound ''levelUp'',
                SetTimeout (TriggerEffect x y ''level_up'') 500,
                SetTimeout (AddLog (''*** SYSTEM UPGRADE *** LEVEL '' @ string_of_int newLevel @
                                    '' REACHED. Processing power increased.'') ''success'') 600]
             else []))
      else (addLog ''Interface closed.'' ''warning'' uid now (prev\<lparr> activePuzzle := None \<rparr>), []))"

text \<open>
  \<open>ensureTileExists\<close>: \<open>rand\<close> and \<open>rand2\<close> are the two \<open>Math.random()\<close> draws the
  updater makes when the tile is absent.
\<close>

definition ensureTileExists :: "int \<Rightarrow> int \<Rightarrow> real \<Rightarrow> real \<Rightarrow> GameState \<Rightarrow> GameState" where
  "ensureTileExists x y rand rand2 prev =
     (let tid = tile_key x y in
      if map_of (world prev) tid \<noteq> None then prev
      else
        let b = (if rand < 15 / 100 then REALITY_NODE
                 else if rand < 36 / 100 then QUANTUM_FLUX
                 else if rand < 57 / 100 then SERVER_CITY
                 else if rand < 78 / 100 then NEON_FOREST
                 else DATA_WASTELAND);
            hp = (b = REALITY_NODE \<or> rand2 > 7 / 10);
            newTile = \<lparr> tile_id = Some tid, tile_x = Some x, tile_y = Some y, biome = Some b,
                        description = Str ''Scanning...'', explored = Some False,
                        hasPuzzle = Some hp, isSolved = Some False, item = None,
                        visualFeature = Str ''...'' \<rparr>
        in prev\<lparr> world := AList.update tid newTile (world prev) \<rparr>)"

text \<open>
  \<open>enrichTileContent\<close>, up to the \<open>await\<close>: the updates it queues and the check on
  \<open>currentTile\<close>. React runs a queued updater when it next renders, after the handler's
  synchronous code, so \<open>currentTile\<close>, declared without a value and assigned inside the
  second updater, is still \<open>undefined\<close> when the check reads it. (React runs an updater
  at once only when no update is queued; here that needs the first updater to have
  returned \<open>prev\<close>, which it does only for a tile whose description is not the sentinel,
  and the check returns for such a tile as well.) The result says whether a request
  goes out, and with which biome.
\<close>

definition enrichTileContent_begin ::
  "int \<Rightarrow> int \<Rightarrow> GameState \<Rightarrow> GameState \<times> BiomeType option option" where
  "enrichTileContent_begin x y prev =
     (let tid = tile_key x y;
          currentTile = (None :: TileData option);
          s1 = (case map_of (world prev) tid of
                  None \<Rightarrow> prev\<lparr> isGenerating := True \<rparr>
                | Some tile \<Rightarrow>
                    if description tile \<noteq> Str ''Scanning...'' then prev
                    else prev\<lparr> isGenerating := True \<rparr>);
          s2 = s1
      in case currentTile of
           None \<Rightarrow> (s2\<lparr> isGenerating := False \<rparr>, None)
         | Some t \<Rightarrow>
             if description t \<noteq> Str ''Scanning...'' then (s2\<lparr> isGenerating := False \<rparr>, None)
             else (s2, Some (biome t)))"

text \<open>
  \<open>enrichTileContent\<close>, after the \<open>await\<close>: \<open>content\<close> is what \<open>generateTileContent\<close>
  resolved to, \<open>prev\<close> the session at that moment. A TypeError on reading \<open>content\<close>
  lands in the \<open>catch\<close>.
\<close>

definition enrichTileContent_resolve ::
  "int \<Rightarrow> int \<Rightarrow> jsval \<Rightarrow> string \<Rightarrow> int \<Rightarrow> GameState \<Rightarrow> GameState" where
  "enrichTileContent_resolve x y content uid now prev =
     (let tid = tile_key x y in
      case (get_prop content ''description'', get_prop content ''visualFeature'') of
        (Inr d, Inr v) \<Rightarrow>
          addLog (''Sector ['' @ string_of_int x @ '','' @ string_of_int y @ '']: '' @ js_to_string d)
                 ''info'' uid now
            (prev\<lparr> isGenerating := False,
                   world := AList.update tid
                              ((spread_tile (map_of (world prev) tid))
                                 \<lparr> description := d, visualFeature := v \<rparr>)
                              (world prev) \<rparr>)
      | _ \<Rightarrow> prev\<lparr> isGenerating := False \<rparr>)"

definition movePlayer :: "int \<Rightarrow> int \<Rightarrow> GameState \<Rightarrow> GameState \<Rightarrow> GameState \<times> effect list" where
  "movePlayer dx dy gameState prev =
     (if activePuzzle gameState \<noteq> None then (prev, [])
      else
        let newX = pos_x (position (player prev)) + dx;
            newY = pos_y (position (player prev)) + dy
        in (prev\<lparr> player := (player prev)\<lparr> position := \<lparr> pos_x = newX, pos_y = newY \<rparr> \<rparr> \<rparr>,
            [PlaySound ''move'', TriggerEffect newX newY ''move'']))"

text \<open>
  The effect on \<open>gameState.player.position\<close>: \<open>ensureTileExists\<close> for the nine
  coordinates around the player, rows first, then \<open>enrichTileContent\<close> for the
  player's own. The \<open>i\<close>-th call draws \<open>rnd (2 * i)\<close> and \<open>rnd (2 * i + 1)\<close>.
\<close>

definition neighbourhood :: "int \<Rightarrow> int \<Rightarrow> (int \<times> int) list" where
  "neighbourhood x y = concat (map (\<lambda>dy. map (\<lambda>dx. (x + dx, y + dy)) [-1, 0, 1]) [-1, 0, 1])"

fun ensure_all :: "(nat \<Rightarrow> real) \<Rightarrow> nat \<Rightarrow> (int \<times> int) list \<Rightarrow> GameState \<Rightarrow> GameState" where
  "ensure_all rnd i [] s = s"
| "ensure_all rnd i ((x, y) # cs) s =
     ensure_all rnd (Suc i) cs (ensureTileExists x y (rnd (2 * i)) (rnd (2 * i + 1)) s)"

definition position_effect ::
  "(nat \<Rightarrow> real) \<Rightarrow> GameState \<Rightarrow> GameState \<times> BiomeType option option" where
  "position_effect rnd gameState =
     (let x = pos_x (position (player gameState));
          y = pos_y (position (player gameState))
      in enrichTileContent_begin x y (ensure_all rnd 0 (neighbourhood x y) gameState))"

text \<open>
  \<open>handleTileClick\<close>, up to the \<open>await\<close>. Reading \<open>tile.hasPuzzle\<close> of an absent
  tile is a TypeError, which ends the handler. The last component is the request to
  \<open>generatePuzzle\<close>, if one goes out: the tile's biome and the player's level.
\<close>

definition handleTileClick_begin ::
  "int \<Rightarrow> int \<Rightarrow> string \<Rightarrow> int \<Rightarrow> GameState \<Rightarrow> GameState
     \<Rightarrow> js_error + GameState \<times> effect list \<times> (BiomeType option \<times> int) option" where
  "handleTileClick_begin x y uid now gameState prev =
     (let tile = map_of (world gameState) (tile_key x y);
          dist = \<bar>x - pos_x (position (player gameState))\<bar>
               + \<bar>y - pos_y (position (player gameState))\<bar>
      in if dist > 1 then
           Inr (addLog ''Target out of range.'' ''warning'' uid now prev,
                [PlaySound ''error'', TriggerEffect x y ''error''], None)
         else
           (case tile of
              None \<Rightarrow> Inl TypeError
            | Some t \<Rightarrow>
                if flag (hasPuzzle t) \<and> \<not> flag (isSolved t) then
                  (if dist = 0 then
                     Inr ((addLog ''Interfacing with node logic...'' ''info'' uid now prev)
                            \<lparr> isGenerating := True \<rparr>,
                          [PlaySound ''interface'', TriggerEffect x y ''interact''],
                          Some (biome t, level (player gameState)))
                   else
                     Inr (addLog ''Move closer to interface.'' ''warning'' uid now prev,
                          [PlaySound ''interface'', TriggerEffect x y ''interact'',
                           PlaySound ''error'', TriggerEffect x y ''error''], None))
                else
                  Inr (addLog (''Inspecting '' @ js_to_string (visualFeature t) @ '': '' @
                               js_to_string (description t)) ''info'' uid now prev,
                       [PlaySound ''interface'', TriggerEffect x y ''interact''], None)))"

text \<open>\<open>handleTileClick\<close>, after the \<open>await\<close>: the puzzle is attached.\<close>

definition handleTileClick_resolve :: "Puzzle \<Rightarrow> GameState \<Rightarrow> GameState" where
  "handleTileClick_resolve puzzle prev = prev\<lparr> activePuzzle := Some puzzle, isGenerating := False \<rparr>"

text \<open>The modal's \<open>onClose\<close>.\<close>

definition onClose :: "GameState \<Rightarrow> GameState \<times> effect list" where
  "onClose prev = (prev\<lparr> activePuzzle := None \<rparr>, [PlaySound ''click''])"

section \<open>Puzzle modal (PuzzleModal.tsx)\<close>

text \<open>
  \<open>String.prototype.toLowerCase\<close>, on the code points below 256: \<open>A\<close> to \<open>Z\<close> and the
  capital letters U+00C0 to U+00DE (U+00D7, the multiplication sign, is none) move
  up by 32; every other code point stays.
\<close>

definition lower_char :: "char \<Rightarrow> char" where
  "lower_char c =
     (let n = (of_char c :: int) in
      if (65 \<le> n \<and> n \<le> 90) \<or> (192 \<le> n \<and> n \<le> 214) \<or> (216 \<le> n \<and> n \<le> 222)
      then char_of (n + 32) else c)"

definition toLowerCase :: "string \<Rightarrow> string" where
  "toLowerCase s = map lower_char s"

text \<open>
  \<open>String.prototype.trim\<close> removes white space and line terminators from both ends;
  below 256 these are U+0009 to U+000D, U+0020 and U+00A0.
\<close>

definition is_space :: "char \<Rightarrow> bool" where
  "is_space c = (c \<in> set [CHR 0x09, CHR 0x0A, CHR 0x0B, CHR 0x0C, CHR 0x0D, CHR 0x20, CHR 0xA0])"

definition trim :: "string \<Rightarrow> string" where
  "trim s = rev (dropWhile is_space (rev (dropWhile is_space s)))"

text \<open>\<open>s.includes(t)\<close>: \<open>t\<close> occurs in \<open>s\<close> as a contiguous run.\<close>

fun str_includes :: "string \<Rightarrow> string \<Rightarrow> bool" where
  "str_includes [] t = (t = [])"
| "str_includes (c # cs) t = (take (length t) (c # cs) = t \<or> str_includes cs t)"

text \<open>A method call \<open>v.toLowerCase()\<close> on a value that may not be a string.\<close>

fun as_string :: "jsval \<Rightarrow> js_error + string" where
  "as_string (Str s) = Inr s"
| "as_string v = Inl TypeError"

record submit_result =
  feedback :: string
  effects :: "effect list"

text \<open>
  \<open>handleSubmit\<close>: \<open>answer\<close> is the text the player entered. It touches only the
  modal's own \<open>feedback\<close>; the session is reached through \<open>onSolve(true)\<close>, one second
  later, on a correct answer only.
\<close>

definition handleSubmit :: "string \<Rightarrow> Puzzle \<Rightarrow> js_error + submit_result" where
  "handleSubmit answer_text puzzle =
     (let normalizedInput = trim (toLowerCase answer_text) in
      case as_string (answer puzzle) of
        Inl e \<Rightarrow> Inl e
      | Inr a \<Rightarrow>
          let normalizedCorrect = trim (toLowerCase a) in
          if normalizedInput = normalizedCorrect \<or> str_includes normalizedInput normalizedCorrect
          then Inr \<lparr> feedback = ''CORRECT'',
                     effects = [PlaySound ''success'', SetTimeout (OnSolve True) 1000] \<rparr>
          else Inr \<lparr> feedback = ''INCORRECT'', effects = [PlaySound ''error''] \<rparr>)"


section \<open>Content provider (services/geminiService.ts)\<close>

text \<open>
  A text is represented by what \<open>JSON.parse\<close> makes of it: the empty text, a
  non-empty text that \<open>JSON.parse\<close> rejects, or a text that parses to a value
  (\<open>JsonText (Obj [])\<close> is the text \<open>{}\<close>).
\<close>

datatype text_blob = EmptyText | Malformed | JsonText jsval

fun JSON_parse :: "text_blob \<Rightarrow> js_error + jsval" where
  "JSON_parse EmptyText = Inl SyntaxError"
| "JSON_parse Malformed = Inl SyntaxError"
| "JSON_parse (JsonText v) = Inr v"

text \<open>The parts of the backend's response object that the program reads.\<close>

record web_source =
  uri :: "string option"
  title :: "string option"

record grounding_chunk =
  web :: "web_source option"

record grounding_metadata =
  groundingChunks :: "grounding_chunk list option"

record candidate =
  groundingMetadata :: "grounding_metadata option"

record content_response =
  response_text :: "text_blob option"
  candidates :: "candidate list option"

text \<open>
  The outcome of \<open>await ai.models.generateContent(...)\<close>: the promise rejects, or
  resolves to a response. The prompt only feeds the backend and is not modelled.
\<close>

datatype backend = Rejects | Responds content_response

definition tile_fallback :: jsval where
  "tile_fallback =
     Obj [(''description'', Str ''Static interference blocks your sensors.''),
          (''visualFeature'', Str ''Glitch'')]"

text \<open>\<open>generateTileContent\<close> returns whatever the text parses to.\<close>

definition generateTileContent :: "backend \<Rightarrow> int \<Rightarrow> int \<Rightarrow> BiomeType option \<Rightarrow> jsval" where
  "generateTileContent outcome x y b =
     (case outcome of
        Rejects \<Rightarrow> tile_fallback
      | Responds response \<Rightarrow>
          (case response_text response of
             None \<Rightarrow> tile_fallback
           | Some t \<Rightarrow>
               if t = EmptyText then tile_fallback
               else (case JSON_parse t of Inl e \<Rightarrow> tile_fallback | Inr v \<Rightarrow> v)))"

definition puzzle_fallback :: "string \<Rightarrow> Puzzle" where
  "puzzle_fallback uid =
     \<lparr> puzzle_id = uid, question = Str ''404 Puzzle Not Found. What is 2 + 2?'',
       puzzle_type = Str ''logic'', options = Undefined, answer = Str ''4'', solved = False,
       groundingUrls = None \<rparr>"

definition reality_fallback :: "string \<Rightarrow> int \<Rightarrow> Puzzle" where
  "reality_fallback uid year =
     \<lparr> puzzle_id = uid,
       question = Str ''The Reality Link is unstable. What year is it currently?'',
       puzzle_type = Str ''reality_check'', options = Undefined,
       answer = Str (string_of_int year), solved = False, groundingUrls = None \<rparr>"

text \<open>\<open>response.text || '{}'\<close>: an absent or empty text reads as \<open>{}\<close>.\<close>

definition text_or_empty_object :: "text_blob option \<Rightarrow> text_blob" where
  "text_or_empty_object t =
     (case t of None \<Rightarrow> JsonText (Obj []) | Some EmptyText \<Rightarrow> JsonText (Obj []) | Some u \<Rightarrow> u)"

text \<open>
  \<open>Array.prototype.sort\<close> with the comparator \<open>() => Math.random() - 0.5\<close>. The
  engine's algorithm is its own; it is represented by insertion from the left, one
  draw of the random source \<open>rnd\<close> per comparison (\<open>k\<close> counts the draws made).
  \<open>undefined\<close> elements go to the end without being compared.
\<close>

fun insert_random :: "(nat \<Rightarrow> real) \<Rightarrow> nat \<Rightarrow> 'a \<Rightarrow> 'a list \<Rightarrow> 'a list \<times> nat" where
  "insert_random rnd k x [] = ([x], k)"
| "insert_random rnd k x (y # ys) =
     (if rnd k - 1 / 2 < 0 then (x # y # ys, Suc k)
      else (case insert_random rnd (Suc k) x ys of (zs, k') \<Rightarrow> (y # zs, k')))"

fun sort_random :: "(nat \<Rightarrow> real) \<Rightarrow> nat \<Rightarrow> 'a list \<Rightarrow> 'a list \<times> nat" where
  "sort_random rnd k [] = ([], k)"
| "sort_random rnd k (x # xs) =
     (case sort_random rnd k xs of (ys, k') \<Rightarrow> insert_random rnd k' x ys)"

definition js_sort_random :: "(nat \<Rightarrow> real) \<Rightarrow> jsval list \<Rightarrow> jsval list" where
  "js_sort_random rnd xs =
     fst (sort_random rnd 0 (filter (\<lambda>v. v \<noteq> Undefined) xs)) @ filter (\<lambda>v. v = Undefined) xs"

text \<open>
  The spread \<open>[...(v || [])]\<close>: a falsy value contributes nothing, an array its
  elements, a string its characters; any other value is not iterable.
\<close>

fun spread_or_empty :: "jsval \<Rightarrow> js_error + jsval list" where
  "spread_or_empty (Arr xs) = Inr xs"
| "spread_or_empty (Str s) = Inr (map (\<lambda>c. Str [c]) s)"
| "spread_or_empty v = (if truthy v then Inl TypeError else Inr [])"

text \<open>\<open>.filter(c => c.web?.uri).map(c => ({title: c.web.title || 'Source', uri: c.web.uri}))\<close>\<close>

definition has_uri :: "grounding_chunk \<Rightarrow> bool" where
  "has_uri c =
     (case web c of None \<Rightarrow> False
      | Some w \<Rightarrow> (case uri w of None \<Rightarrow> False | Some u \<Rightarrow> u \<noteq> []))"

definition citation :: "grounding_chunk \<Rightarrow> string \<times> string" where
  "citation c =
     (case web c of
        None \<Rightarrow> (''Source'', [])
      | Some w \<Rightarrow>
          ((case title w of None \<Rightarrow> ''Source'' | Some t \<Rightarrow> if t = [] then ''Source'' else t),
           (case uri w of None \<Rightarrow> [] | Some u \<Rightarrow> u)))"

text \<open>\<open>response.candidates?.[0]?.groundingMetadata?.groundingChunks || []\<close>\<close>

definition grounding_chunks_of :: "content_response \<Rightarrow> grounding_chunk list" where
  "grounding_chunks_of response =
     (case candidates response of
        None \<Rightarrow> []
      | Some [] \<Rightarrow> []
      | Some (c # cs) \<Rightarrow>
          (case groundingMetadata c of
             None \<Rightarrow> []
           | Some m \<Rightarrow> (case groundingChunks m of None \<Rightarrow> [] | Some chunks \<Rightarrow> chunks)))"

definition REALITY_MARKER :: string where
  "REALITY_MARKER = ''[REALITY CHECK]'' @ [CHR 0x0A]"

text \<open>
  \<open>generateRealityPuzzle\<close>: \<open>uid\<close> is \<open>crypto.randomUUID()\<close>, \<open>year\<close> is
  \<open>new Date().getFullYear()\<close>, \<open>rnd\<close> the random source of the shuffle.
\<close>

definition generateRealityPuzzle :: "string \<Rightarrow> int \<Rightarrow> (nat \<Rightarrow> real) \<Rightarrow> backend \<Rightarrow> Puzzle" where
  "generateRealityPuzzle uid year rnd outcome =
     (case outcome of
        Rejects \<Rightarrow> reality_fallback uid year
      | Responds response \<Rightarrow>
          (case JSON_parse (text_or_empty_object (response_text response)) of
             Inl e \<Rightarrow> reality_fallback uid year
           | Inr data \<Rightarrow>
               let groundingChunks = grounding_chunks_of response;
                   groundingUrls = map citation (filter has_uri groundingChunks)
               in (case get_prop data ''wrongOptions'' of
                     Inl e \<Rightarrow> reality_fallback uid year
                   | Inr wrongOptions \<Rightarrow>
                       (case spread_or_empty wrongOptions of
                          Inl e \<Rightarrow> reality_fallback uid year
                        | Inr wrong \<Rightarrow>
                            (case get_prop data ''correctAnswer'' of
                               Inl e \<Rightarrow> reality_fallback uid year
                             | Inr correctAnswer \<Rightarrow>
                                 (case get_prop data ''question'' of
                                    Inl e \<Rightarrow> reality_fallback uid year
                                  | Inr q \<Rightarrow>
                                      \<lparr> puzzle_id = uid,
                                        question = Str (REALITY_MARKER @ js_to_string q),
                                        puzzle_type = Str ''reality_check'',
                                        options = Arr (js_sort_random rnd (wrong @ [correctAnswer])),
                                        answer = correctAnswer,
                                        solved = False,
                                        groundingUrls = Some groundingUrls \<rparr>))))))"

text \<open>\<open>generatePuzzle\<close>; \<open>difficulty\<close> only feeds the prompt.\<close>

definition generatePuzzle ::
  "string \<Rightarrow> int \<Rightarrow> (nat \<Rightarrow> real) \<Rightarrow> backend \<Rightarrow> BiomeType option \<Rightarrow> int \<Rightarrow> Puzzle" where
  "generatePuzzle uid year rnd outcome b difficulty =
     (if b = Some REALITY_NODE then generateRealityPuzzle uid year rnd outcome
      else
        (case outcome of
           Rejects \<Rightarrow> puzzle_fallback uid
         | Responds response \<Rightarrow>
             (case JSON_parse (text_or_empty_object (response_text response)) of
                Inl e \<Rightarrow> puzzle_fallback uid
              | Inr data \<Rightarrow>
                  (case (get_prop data ''question'', get_prop data ''type'',
                         get_prop data ''options'', get_prop data ''answer'') of
                     (Inr q, Inr t, Inr os, Inr a) \<Rightarrow>
                       \<lparr> puzzle_id = uid, question = q, puzzle_type = t, options = os,
                         answer = a, solved = False, groundingUrls = None \<rparr>
                   | _ \<Rightarrow> puzzle_fallback uid))))"


section \<open>Persistence (saveGame, loadGame)\<close>

text \<open>
  \<open>JSON.stringify\<close> followed by \<open>JSON.parse\<close>, on a value: a property whose value is
  \<open>undefined\<close> is left out, an \<open>undefined\<close> array element becomes \<open>null\<close>.
\<close>

fun stringify_value :: "jsval \<Rightarrow> jsval" where
  "stringify_value (Arr xs) = Arr (map (\<lambda>v. if v = Undefined then Null else stringify_value v) xs)"
| "stringify_value (Obj fs) =
     Obj (concat (map (\<lambda>(k, v). if v = Undefined then [] else [(k, stringify_value v)]) fs))"
| "stringify_value v = v"

definition json_prop :: "string \<Rightarrow> jsval \<Rightarrow> (string \<times> jsval) list" where
  "json_prop k v = (if v = Undefined then [] else [(k, stringify_value v)])"

definition opt_prop :: "string \<Rightarrow> ('a \<Rightarrow> jsval) \<Rightarrow> 'a option \<Rightarrow> (string \<times> jsval) list" where
  "opt_prop k f v = (case v of None \<Rightarrow> [] | Some a \<Rightarrow> [(k, f a)])"

fun biome_name :: "BiomeType \<Rightarrow> string" where
  "biome_name DATA_WASTELAND = ''DATA_WASTELAND''"
| "biome_name NEON_FOREST = ''NEON_FOREST''"
| "biome_name SERVER_CITY = ''SERVER_CITY''"
| "biome_name QUANTUM_FLUX = ''QUANTUM_FLUX''"
| "biome_name REALITY_NODE = ''REALITY_NODE''"

definition tile_to_json :: "TileData \<Rightarrow> jsval" where
  "tile_to_json t =
     Obj (opt_prop ''id'' Str (tile_id t) @ opt_prop ''x'' Num (tile_x t) @
          opt_prop ''y'' Num (tile_y t) @ opt_prop ''biome'' (Str \<circ> biome_name) (biome t) @
          json_prop ''description'' (description t) @ opt_prop ''explored'' Bool (explored t) @
          opt_prop ''hasPuzzle'' Bool (hasPuzzle t) @ opt_prop ''isSolved'' Bool (isSolved t) @
          opt_prop ''item'' Str (item t) @ json_prop ''visualFeature'' (visualFeature t))"

definition player_to_json :: "PlayerState \<Rightarrow> jsval" where
  "player_to_json p =
     Obj [(''position'', Obj [(''x'', Num (pos_x (position p))), (''y'', Num (pos_y (position p)))]),
          (''inventory'', Arr (map Str (inventory p))),
          (''xp'', Num (xp p)),
          (''level'', Num (level p))]"

definition log_to_json :: "GameLog \<Rightarrow> jsval" where
  "log_to_json l =
     Obj [(''id'', Str (log_id l)), (''timestamp'', Num (timestamp l)),
          (''message'', Str (message l)), (''type'', Str (log_type l))]"

definition url_to_json :: "string \<times> string \<Rightarrow> jsval" where
  "url_to_json u = Obj [(''title'', Str (fst u)), (''uri'', Str (snd u))]"

definition puzzle_to_json :: "Puzzle \<Rightarrow> jsval" where
  "puzzle_to_json p =
     Obj ([(''id'', Str (puzzle_id p))] @ json_prop ''question'' (question p) @
          json_prop ''type'' (puzzle_type p) @ json_prop ''options'' (options p) @
          json_prop ''answer'' (answer p) @ [(''solved'', Bool (solved p))] @
          opt_prop ''groundingUrls'' (Arr \<circ> map url_to_json) (groundingUrls p))"

definition state_to_json :: "GameState \<Rightarrow> jsval" where
  "state_to_json s =
     Obj [(''player'', player_to_json (player s)),
          (''world'', Obj (map (\<lambda>(k, t). (k, tile_to_json t)) (world s))),
          (''logs'', Arr (map log_to_json (logs s))),
          (''isGenerating'', Bool (isGenerating s)),
          (''activePuzzle'', (case activePuzzle s of None \<Rightarrow> Null | Some p \<Rightarrow> puzzle_to_json p))]"

text \<open>
  The typed reading of a parsed value. \<open>setGameState(parsedState)\<close> installs the value as
  it is; the readers below say which \<open>GameState\<close> that is, and give \<open>None\<close> for a value
  that is not one (a property of the wrong type, a required property absent).
\<close>

definition field :: "(string \<times> jsval) list \<Rightarrow> string \<Rightarrow> jsval" where
  "field fs k = (case map_of fs k of None \<Rightarrow> Undefined | Some v \<Rightarrow> v)"

fun as_str :: "jsval \<Rightarrow> string option" where
  "as_str (Str s) = Some s"
| "as_str v = None"

fun as_num :: "jsval \<Rightarrow> int option" where
  "as_num (Num n) = Some n"
| "as_num v = None"

fun as_bool :: "jsval \<Rightarrow> bool option" where
  "as_bool (Bool b) = Some b"
| "as_bool v = None"

definition as_biome :: "jsval \<Rightarrow> BiomeType option" where
  "as_biome v =
     (case as_str v of
        None \<Rightarrow> None
      | Some s \<Rightarrow> map_of (map (\<lambda>b. (biome_name b, b))
                            [DATA_WASTELAND, NEON_FOREST, SERVER_CITY, QUANTUM_FLUX, REALITY_NODE]) s)"

text \<open>An optional property: absent, or present with the right type.\<close>

definition optional :: "(jsval \<Rightarrow> 'a option) \<Rightarrow> jsval \<Rightarrow> 'a option option" where
  "optional f v = (if v = Undefined then Some None else map_option Some (f v))"

fun as_list :: "(jsval \<Rightarrow> 'a option) \<Rightarrow> jsval \<Rightarrow> 'a list option" where
  "as_list f (Arr xs) = those (map f xs)"
| "as_list f v = None"

fun tile_of_json :: "jsval \<Rightarrow> TileData option" where
  "tile_of_json (Obj fs) =
     do { i \<leftarrow> optional as_str (field fs ''id'');
          x \<leftarrow> optional as_num (field fs ''x'');
          y \<leftarrow> optional as_num (field fs ''y'');
          b \<leftarrow> optional as_biome (field fs ''biome'');
          e \<leftarrow> optional as_bool (field fs ''explored'');
          h \<leftarrow> optional as_bool (field fs ''hasPuzzle'');
          s \<leftarrow> optional as_bool (field fs ''isSolved'');
          it \<leftarrow> optional as_str (field fs ''item'');
          Some \<lparr> tile_id = i, tile_x = x, tile_y = y, biome = b,
                 description = field fs ''description'', explored = e, hasPuzzle = h,
                 isSolved = s, item = it, visualFeature = field fs ''visualFeature'' \<rparr> }"
| "tile_of_json v = None"

fun coordinates_of_json :: "jsval \<Rightarrow> Coordinates option" where
  "coordinates_of_json (Obj fs) =
     do { x \<leftarrow> as_num (field fs ''x''); y \<leftarrow> as_num (field fs ''y'');
          Some \<lparr> pos_x = x, pos_y = y \<rparr> }"
| "coordinates_of_json v = None"

fun player_of_json :: "jsval \<Rightarrow> PlayerState option" where
  "player_of_json (Obj fs) =
     do { p \<leftarrow> coordinates_of_json (field fs ''position'');
          inv \<leftarrow> as_list as_str (field fs ''inventory'');
          e \<leftarrow> as_num (field fs ''xp'');
          l \<leftarrow> as_num (field fs ''level'');
          Some \<lparr> position = p, inventory = inv, xp = e, level = l \<rparr> }"
| "player_of_json v = None"

fun log_of_json :: "jsval \<Rightarrow> GameLog option" where
  "log_of_json (Obj fs) =
     do { i \<leftarrow> as_str (field fs ''id'');
          t \<leftarrow> as_num (field fs ''timestamp'');
          m \<leftarrow> as_str (field fs ''message'');
          ty \<leftarrow> as_str (field fs ''type'');
          Some \<lparr> log_id = i, timestamp = t, message = m, log_type = ty \<rparr> }"
| "log_of_json v = None"

fun url_of_json :: "jsval \<Rightarrow> (string \<times> string) option" where
  "url_of_json (Obj fs) =
     do { t \<leftarrow> as_str (field fs ''title''); u \<leftarrow> as_str (field fs ''uri''); Some (t, u) }"
| "url_of_json v = None"

fun puzzle_of_json :: "jsval \<Rightarrow> Puzzle option" where
  "puzzle_of_json (Obj fs) =
     do { i \<leftarrow> as_str (field fs ''id'');
          s \<leftarrow> as_bool (field fs ''solved'');
          g \<leftarrow> optional (as_list url_of_json) (field fs ''groundingUrls'');
          Some \<lparr> puzzle_id = i, question = field fs ''question'', puzzle_type = field fs ''type'',
                 options = field fs ''options'', answer = field fs ''answer'', solved = s,
                 groundingUrls = g \<rparr> }"
| "puzzle_of_json v = None"

fun world_of_json :: "jsval \<Rightarrow> (string \<times> TileData) list option" where
  "world_of_json (Obj fs) = those (map (\<lambda>(k, v). map_option (Pair k) (tile_of_json v)) fs)"
| "world_of_json v = None"

fun state_of_json :: "jsval \<Rightarrow> GameState option" where
  "state_of_json (Obj fs) =
     do { p \<leftarrow> player_of_json (field fs ''player'');
          w \<leftarrow> world_of_json (field fs ''world'');
          l \<leftarrow> as_list log_of_json (field fs ''logs'');
          g \<leftarrow> as_bool (field fs ''isGenerating'');
          a \<leftarrow> (if field fs ''activePuzzle'' = Null then Some None
                else map_option Some (puzzle_of_json (field fs ''activePuzzle'')));
          Some \<lparr> player = p, world = w, logs = l, isGenerating = g, activePuzzle = a \<rparr> }"
| "state_of_json v = None"


text \<open>What a saved session reads back as.\<close>

definition reread_tile :: "TileData \<Rightarrow> TileData" where
  "reread_tile t = t\<lparr> description := stringify_value (description t),
                       visualFeature := stringify_value (visualFeature t) \<rparr>"

definition reread_puzzle :: "Puzzle \<Rightarrow> Puzzle" where
  "reread_puzzle p = p\<lparr> question := stringify_value (question p),
                         puzzle_type := stringify_value (puzzle_type p),
                         options := stringify_value (options p),
                         answer := stringify_value (answer p) \<rparr>"

definition reread_state :: "GameState \<Rightarrow> GameState" where
  "reread_state s = s\<lparr> world := map (\<lambda>(k, t). (k, reread_tile t)) (world s),
                        activePuzzle := map_option reread_puzzle (activePuzzle s) \<rparr>"


text \<open>
  \<open>localStorage\<close> holds a text under the one key, or nothing. \<open>saveGame\<close>:
  \<open>write_ok\<close> says whether \<open>setItem\<close> succeeds rather than throws. The click cue
  that \<open>saveGame\<close> and \<open>loadGame\<close> play first is left out.
\<close>

definition saveGame ::
  "bool \<Rightarrow> string \<Rightarrow> int \<Rightarrow> GameState \<Rightarrow> text_blob option \<Rightarrow> GameState
     \<Rightarrow> text_blob option \<times> GameState" where
  "saveGame write_ok uid now gameState stored prev =
     (let stateToSave = gameState\<lparr> isGenerating := False \<rparr> in
      if write_ok then
        (Some (JsonText (state_to_json stateToSave)),
         addLog ''SYSTEM BACKUP COMPLETE. [STATE SAVED]'' ''success'' uid now prev)
      else (stored, addLog ''BACKUP FAILED: WRITE ERROR.'' ''error'' uid now prev))"

text \<open>
  \<open>loadGame\<close>: the session is left as it was but for a log entry, or replaced by the
  parsed value; the parsed value may be one that is no \<open>GameState\<close>.
\<close>

datatype load_result = NotRestored GameState | Restored GameState | RestoredUntyped jsval

definition loadGame :: "string \<Rightarrow> int \<Rightarrow> text_blob option \<Rightarrow> GameState \<Rightarrow> load_result" where
  "loadGame uid now stored prev =
     (let failed = NotRestored (addLog ''RESTORE FAILED: CORRUPT DATA.'' ''error'' uid now prev);
          missing = NotRestored (addLog ''NO BACKUP FOUND IN LOCAL STORAGE.'' ''warning'' uid now prev)
      in case stored of
           None \<Rightarrow> missing
         | Some savedData \<Rightarrow>
             if savedData = EmptyText then missing
             else
               (case JSON_parse savedData of
                  Inl e \<Rightarrow> failed
                | Inr parsedState \<Rightarrow>
                    (case get_prop parsedState ''player'' of
                       Inl e \<Rightarrow> failed
                     | Inr p \<Rightarrow>
                         if \<not> truthy p then failed
                         else
                           (case get_prop parsedState ''world'' of
                              Inl e \<Rightarrow> failed
                            | Inr w \<Rightarrow>
                                if \<not> truthy w then failed
                                else
                                  (case state_of_json parsedState of
                                     None \<Rightarrow> RestoredUntyped parsedState
                                   | Some s \<Rightarrow>
                                       Restored (addLog ''SYSTEM RESTORED FROM BACKUP. [STATE LOADED]''
                                                   ''success'' uid now s))))))"

section \<open>The running application\<close>

text \<open>
  The session together with what is pending around it: the stored text, the requests
  in flight (a puzzle request carries the biome and level it was made with, a content
  request its coordinate and biome), and the timers not yet fired (a solve timer
  carries the session its \<open>onSolve\<close> handler closed over).
\<close>

record System =
  game :: GameState
  storage :: "text_blob option"
  puzzle_requests :: "(BiomeType option \<times> int) list"
  enrich_requests :: "(int \<times> int \<times> BiomeType option) list"
  solve_timers :: "GameState list"
  log_timers :: "(string \<times> string) list"

datatype event =
    KeyMove int int "nat \<Rightarrow> real"
  | TileClick int int string int
  | PuzzleResponse nat string int "nat \<Rightarrow> real" backend
  | ContentResponse nat backend string int
  | SubmitAnswer string
  | SolveTimer nat string int
  | LogTimer nat string int
  | CloseModal
  | SaveClick bool string int
  | LoadClick string int "nat \<Rightarrow> real"

definition remove_nth :: "nat \<Rightarrow> 'a list \<Rightarrow> 'a list" where
  "remove_nth i xs = take i xs @ drop (Suc i) xs"

fun deferred_logs :: "effect list \<Rightarrow> (string \<times> string) list" where
  "deferred_logs [] = []"
| "deferred_logs (SetTimeout (AddLog m t) ms # fx) = (m, t) # deferred_logs fx"
| "deferred_logs (e # fx) = deferred_logs fx"

text \<open>The position effect, run after a render in which the position object is new.\<close>

definition run_position_effect :: "(nat \<Rightarrow> real) \<Rightarrow> System \<Rightarrow> System" where
  "run_position_effect rnd sys =
     (case position_effect rnd (game sys) of
        (g, req) \<Rightarrow>
          sys\<lparr> game := g,
                enrich_requests := enrich_requests sys @
                  (case req of
                     None \<Rightarrow> []
                   | Some b \<Rightarrow> [(pos_x (position (player (game sys))),
                                 pos_y (position (player (game sys))), b)]) \<rparr>)"

text \<open>
  One event. The handlers of a key press, a click and the save button close over the
  current session. An event that names a request or timer that does not exist changes
  nothing. The result is \<open>None\<close> only when \<open>loadGame\<close> installs a value that is no
  \<open>GameState\<close>.
\<close>

fun step :: "event \<Rightarrow> System \<Rightarrow> System option" where
  "step (KeyMove dx dy rnd) sys =
     (if activePuzzle (game sys) \<noteq> None then Some sys
      else Some (run_position_effect rnd
                   (sys\<lparr> game := fst (movePlayer dx dy (game sys) (game sys)) \<rparr>)))"
| "step (TileClick x y uid now) sys =
     (case handleTileClick_begin x y uid now (game sys) (game sys) of
        Inl e \<Rightarrow> Some sys
      | Inr (g, fx, req) \<Rightarrow>
          Some (sys\<lparr> game := g,
                      puzzle_requests := puzzle_requests sys @
                        (case req of None \<Rightarrow> [] | Some r \<Rightarrow> [r]) \<rparr>))"
| "step (PuzzleResponse i uid year rnd outcome) sys =
     (if i < length (puzzle_requests sys) then
        (case puzzle_requests sys ! i of
           (b, difficulty) \<Rightarrow>
             Some (sys\<lparr> game := handleTileClick_resolve
                                   (generatePuzzle uid year rnd outcome b difficulty) (game sys),
                         puzzle_requests := remove_nth i (puzzle_requests sys) \<rparr>))
      else Some sys)"
| "step (ContentResponse i outcome uid now) sys =
     (if i < length (enrich_requests sys) then
        (case enrich_requests sys ! i of
           (x, y, b) \<Rightarrow>
             Some (sys\<lparr> game := enrichTileContent_resolve x y (generateTileContent outcome x y b)
                                   uid now (game sys),
                         enrich_requests := remove_nth i (enrich_requests sys) \<rparr>))
      else Some sys)"
| "step (SubmitAnswer a) sys =
     (case activePuzzle (game sys) of
        None \<Rightarrow> Some sys
      | Some p \<Rightarrow>
          (case handleSubmit a p of
             Inl e \<Rightarrow> Some sys
           | Inr r \<Rightarrow>
               if SetTimeout (OnSolve True) 1000 \<in> set (effects r)
               then Some (sys\<lparr> solve_timers := solve_timers sys @ [game sys] \<rparr>)
               else Some sys))"
| "step (SolveTimer i uid now) sys =
     (if i < length (solve_timers sys) then
        (case handlePuzzleSolve True uid now (solve_timers sys ! i) (game sys) of
           (g, fx) \<Rightarrow>
             Some (sys\<lparr> game := g,
                         solve_timers := remove_nth i (solve_timers sys),
                         log_timers := log_timers sys @ deferred_logs fx \<rparr>))
      else Some sys)"
| "step (LogTimer i uid now) sys =
     (if i < length (log_timers sys) then
        (case log_timers sys ! i of
           (m, t) \<Rightarrow>
             Some (sys\<lparr> game := addLog m t uid now (game sys),
                         log_timers := remove_nth i (log_timers sys) \<rparr>))
      else Some sys)"
| "step CloseModal sys =
     (if activePuzzle (game sys) \<noteq> None then Some (sys\<lparr> game := fst (onClose (game sys)) \<rparr>)
      else Some sys)"
| "step (SaveClick write_ok uid now) sys =
     (case saveGame write_ok uid now (game sys) (storage sys) (game sys) of
        (stored, g) \<Rightarrow> Some (sys\<lparr> game := g, storage := stored \<rparr>))"
| "step (LoadClick uid now rnd) sys =
     (case loadGame uid now (storage sys) (game sys) of
        NotRestored g \<Rightarrow> Some (sys\<lparr> game := g \<rparr>)
      | Restored g \<Rightarrow> Some (run_position_effect rnd (sys\<lparr> game := g \<rparr>))
      | RestoredUntyped v \<Rightarrow> None)"

text \<open>
  Start-up: the initial session, what the browser has stored, nothing pending, and the
  position effect run once.
\<close>

definition init_system :: "int \<Rightarrow> (nat \<Rightarrow> real) \<Rightarrow> text_blob option \<Rightarrow> System" where
  "init_system now rnd stored =
     run_position_effect rnd
       \<lparr> game = initialGameState now, storage = stored, puzzle_requests = [],
         enrich_requests = [], solve_timers = [], log_timers = [] \<rparr>"

fun run :: "event list \<Rightarrow> System \<Rightarrow> System option" where
  "run [] sys = Some sys"
| "run (e # es) sys = (case step e sys of None \<Rightarrow> None | Some sys' \<Rightarrow> run es sys')"

text \<open>
  What the application can reach: a first start-up with nothing stored, any event, and
  a new start-up (the page is loaded again) with what the previous run left stored.
\<close>

inductive reachable :: "System \<Rightarrow> bool" where
  reachable_init: "reachable (init_system now rnd None)"
| reachable_restart: "reachable sys \<Longrightarrow> reachable (init_system now rnd (storage sys))"
| reachable_step: "reachable sys \<Longrightarrow> step e sys = Some sys' \<Longrightarrow> reachable sys'"

section \<open>Fixtures\<close>

text \<open>A random source that replays a fixed, non-empty list of draws, cyclically.\<close>

definition replay :: "real list \<Rightarrow> nat \<Rightarrow> real" where
  "replay rs k = rs ! (k mod length rs)"





text \<open>
  A start-up in which every tile is a data wasteland and only the player's own tile
  \<open>(0,0)\<close> carries a puzzle; the player interacts with it (\<open>pending_system\<close>: the
  request to \<open>generatePuzzle\<close> is in flight), and the request fails, so that the
  fallback puzzle is attached (\<open>active_system\<close>).
\<close>

definition draws12 :: "nat \<Rightarrow> real" where
  "draws12 = replay [9/10, 1/10, 9/10, 1/10, 9/10, 1/10, 9/10, 1/10, 9/10, 4/5, 9/10, 1/10]"

definition pending_system :: System where
  "pending_system = the (step (TileClick 0 0 ''c'' 1) (init_system 0 draws12 None))"

definition active_system :: System where
  "active_system = the (step (PuzzleResponse 0 ''p'' 2026 draws12 Rejects) pending_system)"












text \<open>
  Responses of the backend: one whose text parses to an object with a \<open>question\<close> and
  nothing else, one without a text, one whose text is not JSON.
\<close>

definition partial_response :: content_response where
  "partial_response = \<lparr> response_text = Some (JsonText (Obj [(''question'', Str ''Q'')])), candidates = None \<rparr>"

definition no_text_response :: content_response where
  "no_text_response = \<lparr> response_text = None, candidates = None \<rparr>"

definition malformed_response :: content_response where
  "malformed_response = \<lparr> response_text = Some Malformed, candidates = None \<rparr>"

text \<open>
  A session is stable under saving when every value it took from the backend reads
  back as it is: no \<open>undefined\<close> inside an array or an object.
\<close>

definition json_stable :: "GameState \<Rightarrow> bool" where
  "json_stable s = (reread_state s = s)"

fun restored_of :: "load_result \<Rightarrow> GameState option" where
  "restored_of (Restored g) = Some g"
| "restored_of r = None"

text \<open>
  The start-up above, saved; and a session whose attached puzzle comes from a grounded
  response without \<open>correctAnswer\<close>, so that its options end in \<open>undefined\<close>.
\<close>

definition saved_system :: System where
  "saved_system = the (step (SaveClick True ''s'' 1) (init_system 0 draws12 None))"

definition holey_state :: GameState where
  "holey_state =
     (initialGameState 0)
       \<lparr> activePuzzle := Some (generateRealityPuzzle ''id'' 2026 draws12
            (Responds \<lparr> response_text = Some (JsonText (Obj [(''wrongOptions'', Arr [Str ''A''])])),
                        candidates = None \<rparr>)) \<rparr>"

definition RESTORED_LOG :: "string \<Rightarrow> int \<Rightarrow> GameLog" where
  "RESTORED_LOG uid now =
     \<lparr> log_id = uid, timestamp = now, message = ''SYSTEM RESTORED FROM BACKUP. [STATE LOADED]'',
       log_type = ''success'' \<rparr>"

text \<open>
  What may happen to the tile under one key in one event other than a load: an absent
  tile stays absent or appears (a reality node then has its puzzle), a present tile
  keeps its biome and puzzle flag, and stays solved if it was.
\<close>

definition tile_step :: "TileData option \<Rightarrow> TileData option \<Rightarrow> bool" where
  "tile_step old new =
     (case new of
        None \<Rightarrow> old = None
      | Some t' \<Rightarrow>
          (case old of
             None \<Rightarrow> biome t' = Some REALITY_NODE \<longrightarrow> hasPuzzle t' = Some True
           | Some t \<Rightarrow> biome t' = biome t \<and> hasPuzzle t' = hasPuzzle t
                     \<and> (isSolved t = Some True \<longrightarrow> isSolved t' = Some True)))"

fun is_load :: "event \<Rightarrow> bool" where
  "is_load (LoadClick uid now rnd) = True"
| "is_load e = False"

text \<open>
  The start-up above with the player moved one step right, which creates the tile
  \<open>(2,0)\<close>, and the session saved (\<open>explored_system\<close>); then the page loaded again
  and the player moved one step right with other draws (\<open>second_session\<close>); then
  the save loaded (\<open>reloaded_system\<close>).
\<close>

definition explored_system :: System where
  "explored_system = the (run [KeyMove 1 0 draws12, SaveClick True ''s'' 1] (init_system 0 draws12 None))"

definition second_session :: System where
  "second_session =
     the (step (KeyMove 1 0 (replay [1 / 10]))
            (init_system 5 (replay [1 / 10]) (storage explored_system)))"

definition reloaded_system :: System where
  "reloaded_system = the (step (LoadClick ''l'' 6 draws12) second_session)"

text \<open>Every coordinate next to the player, diagonals included, has a tile.\<close>

definition surrounded :: "GameState \<Rightarrow> bool" where
  "surrounded g =
     list_all (\<lambda>(x, y). map_of (world g) (tile_key x y) \<noteq> None)
       (neighbourhood (pos_x (position (player g))) (pos_y (position (player g))))"

text \<open>In every tile of the mapping, a reality node has its puzzle.\<close>

definition reality_rule :: "(string \<times> TileData) list \<Rightarrow> bool" where
  "reality_rule w = (\<forall>k t. map_of w k = Some t \<longrightarrow> biome t = Some REALITY_NODE \<longrightarrow> hasPuzzle t = Some True)"

text \<open>
  From \<open>pending_system\<close>: the player steps right before the puzzle arrives, the
  puzzle arrives, the player answers it (\<open>submitted_system\<close>) and the resolution runs
  (\<open>misplaced_system\<close>). From \<open>active_system\<close>: the session is saved, the puzzle
  answered and resolved (\<open>solved_system\<close>), and the save loaded (\<open>regressed_system\<close>).
  \<open>reality_system\<close> is a start-up in which every tile is a reality node.
\<close>

definition submitted_system :: System where
  "submitted_system =
     the (run [KeyMove 1 0 draws12, PuzzleResponse 0 ''p'' 2026 draws12 Rejects, SubmitAnswer ''4'']
            pending_system)"

definition misplaced_system :: System where
  "misplaced_system = the (step (SolveTimer 0 ''s'' 2) submitted_system)"

definition solved_system :: System where
  "solved_system =
     the (run [SaveClick True ''v'' 1, SubmitAnswer ''4'', SolveTimer 0 ''t'' 2] active_system)"

definition regressed_system :: System where
  "regressed_system = the (step (LoadClick ''l'' 3 draws12) solved_system)"

definition reality_system :: System where
  "reality_system = init_system 0 (replay [1 / 10]) None"





text \<open>
  A session in which every tile is a data wasteland with a puzzle and the backend is
  out of reach, so that every puzzle is the fallback (answer \<open>4\<close>). The player solves
  the puzzles of \<open>(0,0)\<close>, \<open>(1,0)\<close>, \<open>(2,0)\<close> and \<open>(3,0)\<close>, stepping right after each, and
  on \<open>(4,0)\<close> submits the correct answer twice before the modal closes
  (\<open>double_submission\<close>). \<open>progress_of\<close> reads off a state what the progression has
  come to.
\<close>

definition puzzles_everywhere :: "nat \<Rightarrow> real" where
  "puzzles_everywhere = replay [9/10]"

definition solve_at :: "int \<Rightarrow> event list" where
  "solve_at x =
     [TileClick x 0 ''c'' 1, PuzzleResponse 0 ''p'' 2026 puzzles_everywhere Rejects,
      SubmitAnswer ''4'', SolveTimer 0 ''s'' 2, KeyMove 1 0 puzzles_everywhere]"

definition double_submission :: "event list" where
  "double_submission =
     solve_at 0 @ solve_at 1 @ solve_at 2 @ solve_at 3 @
     [TileClick 4 0 ''c'' 1, PuzzleResponse 0 ''p'' 2026 puzzles_everywhere Rejects,
      SubmitAnswer ''4'', SubmitAnswer ''4'']"

definition XP_MESSAGE :: string where
  "XP_MESSAGE = ''Logic Gate Bypassed. Data extracted (+100 XP).''"

record progress =
  experience :: int
  reached_level :: int
  grants_logged :: nat
  resolutions_due :: nat
  level_ups_reported :: nat

definition progress_of :: "System \<Rightarrow> progress" where
  "progress_of sys =
     \<lparr> experience = xp (player (game sys)),
       reached_level = level (player (game sys)),
       grants_logged = length (filter (\<lambda>l. message l = XP_MESSAGE) (logs (game sys))),
       resolutions_due = length (solve_timers sys),
       level_ups_reported = length (log_timers sys) \<rparr>"

text \<open>
  What holds of the tile under one key before and after an event that writes no
  content: a present tile stays, with its description and its visual feature.
\<close>

definition content_kept :: "TileData option \<Rightarrow> TileData option \<Rightarrow> bool" where
  "content_kept old new =
     (case old of
        None \<Rightarrow> True
      | Some t \<Rightarrow>
          (case new of
             None \<Rightarrow> False
           | Some t' \<Rightarrow> description t' = description t \<and> visualFeature t' = visualFeature t))"

section \<open>Properties\<close>

subsection \<open>Helper lemmas\<close>

lemma XP_consts: "XP_PER_PUZZLE = 100" "XP_PER_LEVEL = 500"
  by (simp_all add: XP_PER_PUZZLE_def XP_PER_LEVEL_def)

lemma field_Nil: "field [] k = Undefined"
  by (simp add: field_def)

lemma field_Cons: "field ((k, v) # rest) k' = (if k' = k then v else field rest k')"
  by (simp add: field_def)

lemma field_opt_prop_other: "k' \<noteq> k \<Longrightarrow> field (opt_prop k f v @ rest) k' = field rest k'"
  by (simp add: field_def opt_prop_def split: option.splits)

lemma field_opt_prop_same:
  "field rest k = Undefined \<Longrightarrow>
   field (opt_prop k f v @ rest) k = (case v of None \<Rightarrow> Undefined | Some a \<Rightarrow> f a)"
  by (simp add: field_def opt_prop_def split: option.splits)

lemma field_opt_prop_last:
  "field (opt_prop k f v) k' =
     (if k' = k then (case v of None \<Rightarrow> Undefined | Some a \<Rightarrow> f a) else Undefined)"
  by (simp add: field_def opt_prop_def split: option.splits)

lemma field_json_prop_other: "k' \<noteq> k \<Longrightarrow> field (json_prop k v @ rest) k' = field rest k'"
  by (simp add: field_def json_prop_def)

lemma field_json_prop_same:
  "field rest k = Undefined \<Longrightarrow> field (json_prop k v @ rest) k = stringify_value v"
  by (simp add: field_def json_prop_def)

lemma field_json_prop_last:
  "field (json_prop k v) k' = (if k' = k then stringify_value v else Undefined)"
  by (simp add: field_def json_prop_def)

lemmas json_field_simps = field_Nil field_Cons field_opt_prop_other field_opt_prop_same
  field_opt_prop_last field_json_prop_other field_json_prop_same field_json_prop_last

lemma stringify_value_Undefined: "(if v = Undefined then Undefined else stringify_value v) = stringify_value v"
  by simp

lemma optional_str: "optional as_str (case v of None \<Rightarrow> Undefined | Some a \<Rightarrow> Str a) = Some v"
  by (cases v) (simp_all add: optional_def)

lemma optional_num: "optional as_num (case v of None \<Rightarrow> Undefined | Some a \<Rightarrow> Num a) = Some v"
  by (cases v) (simp_all add: optional_def)

lemma optional_bool: "optional as_bool (case v of None \<Rightarrow> Undefined | Some a \<Rightarrow> Bool a) = Some v"
  by (cases v) (simp_all add: optional_def)

lemma as_biome_name: "as_biome (Str (biome_name b)) = Some b"
  by (cases b) (simp_all add: as_biome_def)

lemma optional_biome:
  "optional as_biome (case v of None \<Rightarrow> Undefined | Some a \<Rightarrow> (Str \<circ> biome_name) a) = Some v"
  by (cases v) (simp_all add: optional_def as_biome_name)

lemmas optional_simps = optional_str optional_num optional_bool optional_biome

lemma tile_roundtrip: "tile_of_json (tile_to_json t) = Some (reread_tile t)"
  by (simp add: tile_to_json_def json_field_simps optional_simps reread_tile_def)

lemma those_map_roundtrip:
  "(\<And>x. f (g x) = Some (h x)) \<Longrightarrow> those (map (f \<circ> g) xs) = Some (map h xs)"
  by (induction xs) simp_all

lemma player_roundtrip: "player_of_json (player_to_json p) = Some p"
proof -
  have "those (map (as_str \<circ> Str) (inventory p)) = Some (map (\<lambda>x. x) (inventory p))"
    by (rule those_map_roundtrip) simp
  then show ?thesis
    by (simp add: player_to_json_def json_field_simps)
qed

lemma log_roundtrip: "log_of_json (log_to_json l) = Some l"
  by (simp add: log_to_json_def json_field_simps)

lemma url_roundtrip: "url_of_json (url_to_json u) = Some u"
  by (simp add: url_to_json_def json_field_simps)

lemma urls_roundtrip:
  "optional (as_list url_of_json) (case g of None \<Rightarrow> Undefined | Some a \<Rightarrow> (Arr \<circ> map url_to_json) a) = Some g"
proof (cases g)
  case None
  then show ?thesis by (simp add: optional_def)
next
  case (Some us)
  have "those (map (url_of_json \<circ> url_to_json) us) = Some (map (\<lambda>x. x) us)"
    by (rule those_map_roundtrip) (simp add: url_roundtrip)
  with Some show ?thesis by (simp add: optional_def)
qed

lemma puzzle_roundtrip: "puzzle_of_json (puzzle_to_json p) = Some (reread_puzzle p)"
  by (simp add: puzzle_to_json_def json_field_simps urls_roundtrip reread_puzzle_def)

lemma world_roundtrip:
  "those (map ((\<lambda>(k, v). map_option (Pair k) (tile_of_json v)) \<circ> (\<lambda>(k, t). (k, tile_to_json t))) w)
     = Some (map (\<lambda>(k, t). (k, reread_tile t)) w)"
  by (rule those_map_roundtrip) (simp add: tile_roundtrip split: prod.splits)

lemma puzzle_to_json_not_Null: "puzzle_to_json p \<noteq> Null"
  by (simp add: puzzle_to_json_def)

lemma state_roundtrip: "state_of_json (state_to_json s) = Some (reread_state s)"
proof -
  have l: "those (map (log_of_json \<circ> log_to_json) (logs s)) = Some (map (\<lambda>x. x) (logs s))"
    by (rule those_map_roundtrip) (simp add: log_roundtrip)
  show ?thesis
    using l
    by (cases "activePuzzle s")
       (simp_all add: state_to_json_def json_field_simps player_roundtrip world_roundtrip
          puzzle_roundtrip puzzle_to_json_not_Null reread_state_def)
qed






lemma citation_locator: "has_uri c \<Longrightarrow> snd (citation c) \<noteq> [] \<and> fst (citation c) \<noteq> []"
  by (auto simp: has_uri_def citation_def split: option.splits)



lemma ensureTileExists_player [simp]: "player (ensureTileExists x y r1 r2 s) = player s"
  by (simp add: ensureTileExists_def Let_def)

lemma ensure_all_player [simp]: "player (ensure_all rnd i cs s) = player s"
  by (induction rnd i cs s rule: ensure_all.induct) simp_all

lemma enrichTileContent_begin_player [simp]: "player (fst (enrichTileContent_begin x y s)) = player s"
  by (simp add: enrichTileContent_begin_def Let_def split: option.splits)

lemma position_effect_player [simp]: "player (fst (position_effect rnd s)) = player s"
  by (simp add: position_effect_def Let_def)

lemma run_position_effect_player [simp]: "player (game (run_position_effect rnd sys)) = player (game sys)"
proof -
  obtain g req where r: "position_effect rnd (game sys) = (g, req)"
    by (cases "position_effect rnd (game sys)")
  then have "player g = player (game sys)"
    using position_effect_player [of rnd "game sys"] by simp
  with r show ?thesis
    by (simp add: run_position_effect_def)
qed













lemma pending_system_step:
  "step (TileClick 0 0 ''c'' 1) (init_system 0 draws12 None) = Some pending_system"
  unfolding pending_system_def by code_simp

lemma active_system_step:
  "step (PuzzleResponse 0 ''p'' 2026 draws12 Rejects) pending_system = Some active_system"
  unfolding active_system_def by code_simp

lemma pending_system_reachable: "reachable pending_system"
  using pending_system_step reachable_init reachable_step by blast

lemma active_system_reachable: "reachable active_system"
  using active_system_step pending_system_reachable reachable_step by blast

lemma pending_system_facts:
  "puzzle_requests pending_system = [(Some DATA_WASTELAND, 1)]"
  "activePuzzle (game pending_system) = None"
  "position (player (game pending_system)) = \<lparr> pos_x = 0, pos_y = 0 \<rparr>"
  by code_simp+

lemma active_system_puzzle: "activePuzzle (game active_system) = Some (puzzle_fallback ''p'')"
  by code_simp

lemma generateRealityPuzzle_cases:
  "generateRealityPuzzle uid year rnd Rejects = reality_fallback uid year"
  "response_text r = Some Malformed \<Longrightarrow> generateRealityPuzzle uid year rnd (Responds r) = reality_fallback uid year"
  "response_text r = Some (JsonText Null) \<Longrightarrow> generateRealityPuzzle uid year rnd (Responds r) = reality_fallback uid year"
  "response_text r = Some (JsonText (Obj fs)) \<Longrightarrow> field fs ''wrongOptions'' = Undefined \<Longrightarrow>
     answer (generateRealityPuzzle uid year rnd (Responds r)) = field fs ''correctAnswer''"
  by (simp_all add: generateRealityPuzzle_def text_or_empty_object_def field_def Let_def
        split: option.splits)

lemma enrichTileContent_resolve_world:
  assumes "get_prop content ''description'' = Inr d" "get_prop content ''visualFeature'' = Inr v"
  shows "map_of (world (enrichTileContent_resolve x y content uid now prev)) =
           (map_of (world prev))
             (tile_key x y \<mapsto> (spread_tile (map_of (world prev) (tile_key x y)))
                                  \<lparr> description := d, visualFeature := v \<rparr>)"
  using assms
  by (simp add: enrichTileContent_resolve_def Let_def addLog_def update_conv')

lemma reachable_run: "reachable sys \<Longrightarrow> run es sys = Some sys' \<Longrightarrow> reachable sys'"
proof (induction es arbitrary: sys)
  case Nil
  then show ?case by simp
next
  case (Cons e es)
  then obtain mid where m: "step e sys = Some mid" "run es mid = Some sys'"
    by (auto split: option.splits)
  with Cons.prems have "reachable mid"
    using reachable_step by blast
  with m Cons.IH show ?case by blast
qed

lemma loadGame_saved:
  "loadGame uid now (Some (JsonText (state_to_json s))) prev
     = Restored (addLog ''SYSTEM RESTORED FROM BACKUP. [STATE LOADED]'' ''success'' uid now (reread_state s))"
proof -
  have "get_prop (state_to_json s) ''player'' = Inr (player_to_json (player s))"
       "get_prop (state_to_json s) ''world'' = Inr (Obj (map (\<lambda>(k, t). (k, tile_to_json t)) (world s)))"
    by (simp_all add: state_to_json_def)
  moreover have "truthy (player_to_json (player s))"
    by (simp add: player_to_json_def)
  ultimately show ?thesis
    by (simp add: loadGame_def Let_def state_roundtrip)
qed

lemma reread_state_fields [simp]:
  "player (reread_state s) = player s" "logs (reread_state s) = logs s"
  "isGenerating (reread_state s) = isGenerating s"
  by (simp_all add: reread_state_def)

lemma reread_state_isGenerating: "reread_state (s\<lparr> isGenerating := g \<rparr>) = (reread_state s)\<lparr> isGenerating := g \<rparr>"
  by (simp add: reread_state_def)

lemma loadGame_invalid:
  assumes "JSON_parse blob = Inr v"
    and "\<not> (\<exists>p. get_prop v ''player'' = Inr p \<and> truthy p) \<or> \<not> (\<exists>w. get_prop v ''world'' = Inr w \<and> truthy w)"
  shows "loadGame uid now (Some blob) prev
           = NotRestored (addLog ''RESTORE FAILED: CORRUPT DATA.'' ''error'' uid now prev)"
proof -
  from assms(1) have ne: "blob \<noteq> EmptyText" by auto
  show ?thesis
    using assms ne
    by (auto simp: loadGame_def Let_def split: sum.splits)
qed

lemma init_system_stable: "json_stable (game (init_system 0 draws12 None))"
  by code_simp

lemma tile_step_refl [simp]: "tile_step a a"
  by (simp add: tile_step_def split: option.splits)

lemma tile_step_trans: "tile_step a b \<Longrightarrow> tile_step b c \<Longrightarrow> tile_step a c"
  by (auto simp: tile_step_def split: option.splits)

lemma ensureTileExists_tile_step:
  "tile_step (map_of (world s) k) (map_of (world (ensureTileExists x y r1 r2 s)) k)"
  by (auto simp: ensureTileExists_def Let_def update_conv' tile_step_def split: option.splits)

lemma ensure_all_tile_step:
  "tile_step (map_of (world s) k) (map_of (world (ensure_all rnd i cs s)) k)"
proof (induction rnd i cs s rule: ensure_all.induct)
  case (1 rnd i s)
  show ?case by simp
next
  case (2 rnd i x y cs s)
  show ?case
    using tile_step_trans [OF ensureTileExists_tile_step "2.IH"] by simp
qed

lemma enrichTileContent_begin_world [simp]: "world (fst (enrichTileContent_begin x y s)) = world s"
  by (simp add: enrichTileContent_begin_def Let_def split: option.splits)

lemma position_effect_tile_step:
  "tile_step (map_of (world s) k) (map_of (world (fst (position_effect rnd s))) k)"
  by (simp add: position_effect_def Let_def ensure_all_tile_step)

lemma run_position_effect_game: "game (run_position_effect rnd sys) = fst (position_effect rnd (game sys))"
  by (simp add: run_position_effect_def split: prod.splits)

lemma run_position_effect_other [simp]:
  "storage (run_position_effect rnd sys) = storage sys"
  "solve_timers (run_position_effect rnd sys) = solve_timers sys"
  "puzzle_requests (run_position_effect rnd sys) = puzzle_requests sys"
  by (simp_all add: run_position_effect_def split: prod.splits)

lemma movePlayer_world [simp]: "world (fst (movePlayer dx dy gs prev)) = world prev"
  by (simp add: movePlayer_def Let_def)

lemma addLog_fields [simp]:
  "world (addLog m t uid now s) = world s" "player (addLog m t uid now s) = player s"
  "activePuzzle (addLog m t uid now s) = activePuzzle s"
  "isGenerating (addLog m t uid now s) = isGenerating s"
  by (simp_all add: addLog_def)

lemma handleTileClick_begin_world:
  "handleTileClick_begin x y uid now gs prev = Inr (g, fx, req) \<Longrightarrow> world g = world prev \<and> player g = player prev"
  by (auto simp: handleTileClick_begin_def Let_def split: if_splits option.splits)

lemma enrichTileContent_resolve_tile_step:
  "tile_step (map_of (world prev) k) (map_of (world (enrichTileContent_resolve x y content uid now prev)) k)"
  by (auto simp: enrichTileContent_resolve_def Let_def update_conv' tile_step_def spread_tile_def
        empty_tile_def split: sum.splits option.splits)

lemma handlePuzzleSolve_tile_step:
  "tile_step (map_of (world prev) k) (map_of (world (fst (handlePuzzleSolve success uid now gs prev))) k)"
  by (auto simp: handlePuzzleSolve_def Let_def update_conv' tile_step_def spread_tile_def
        empty_tile_def split: option.splits)

lemma saveGame_world [simp]: "world (snd (saveGame ok uid now gs st prev)) = world prev"
  by (simp add: saveGame_def Let_def)

lemma step_tile_step:
  assumes "step e sys = Some sys'" "\<not> is_load e"
  shows "tile_step (map_of (world (game sys)) k) (map_of (world (game sys')) k)"
proof (cases e)
  case (KeyMove dx dy rnd)
  show ?thesis
  proof (cases "activePuzzle (game sys) \<noteq> None")
    case True
    with assms KeyMove show ?thesis by simp
  next
    case False
    with assms KeyMove have "game sys' = fst (position_effect rnd (fst (movePlayer dx dy (game sys) (game sys))))"
      by (auto simp: run_position_effect_game)
    then show ?thesis
      using position_effect_tile_step [of "fst (movePlayer dx dy (game sys) (game sys))" k rnd]
      by simp
  qed
next
  case (TileClick x y uid now)
  with assms show ?thesis
    by (auto split: sum.splits dest: handleTileClick_begin_world)
next
  case (PuzzleResponse i uid year rnd outcome)
  with assms show ?thesis
    by (auto simp: handleTileClick_resolve_def split: if_splits prod.splits)
next
  case (ContentResponse i outcome uid now)
  with assms show ?thesis
    by (auto simp: enrichTileContent_resolve_tile_step split: if_splits prod.splits)
next
  case (SubmitAnswer a)
  with assms show ?thesis
    by (auto split: option.splits sum.splits if_splits)
next
  case (SolveTimer i uid now)
  show ?thesis
  proof (cases "i < length (solve_timers sys)")
    case True
    with assms SolveTimer
    have "game sys' = fst (handlePuzzleSolve True uid now (solve_timers sys ! i) (game sys))"
      by (auto split: prod.splits)
    then show ?thesis
      by (simp add: handlePuzzleSolve_tile_step)
  next
    case False
    with assms SolveTimer show ?thesis by simp
  qed
next
  case (LogTimer i uid now)
  with assms show ?thesis
    by (auto split: if_splits prod.splits)
next
  case CloseModal
  with assms show ?thesis
    by (auto simp: onClose_def split: if_splits)
next
  case (SaveClick ok uid now)
  with assms have "game sys' = snd (saveGame ok uid now (game sys) (storage sys) (game sys))"
    by (auto split: prod.splits)
  then show ?thesis by simp
next
  case (LoadClick uid now rnd)
  with assms show ?thesis by simp
qed


lemma ensureTileExists_present:
  "map_of (world (ensureTileExists x y r1 r2 s)) (tile_key x y) \<noteq> None"
  by (simp add: ensureTileExists_def Let_def update_conv')

lemma ensureTileExists_noop:
  "map_of (world prev) (tile_key x y) \<noteq> None \<Longrightarrow> ensureTileExists x y r1 r2 prev = prev"
  by (simp add: ensureTileExists_def Let_def)

lemma tile_step_Some:
  "tile_step (Some t) new \<Longrightarrow>
   \<exists>t'. new = Some t' \<and> biome t' = biome t \<and> hasPuzzle t' = hasPuzzle t
      \<and> (isSolved t = Some True \<longrightarrow> isSolved t' = Some True)"
  by (auto simp: tile_step_def split: option.splits)

lemma explored_system_run:
  "run [KeyMove 1 0 draws12, SaveClick True ''s'' 1] (init_system 0 draws12 None) = Some explored_system"
  unfolding explored_system_def by code_simp

lemma second_session_step:
  "step (KeyMove 1 0 (replay [1 / 10])) (init_system 5 (replay [1 / 10]) (storage explored_system))
     = Some second_session"
  unfolding second_session_def by code_simp

lemma reloaded_system_step: "step (LoadClick ''l'' 6 draws12) second_session = Some reloaded_system"
  unfolding reloaded_system_def by code_simp

lemma explored_system_reachable: "reachable explored_system"
  using reachable_run [OF reachable_init explored_system_run] .

lemma second_session_reachable: "reachable second_session"
  using reachable_step [OF reachable_restart [OF explored_system_reachable] second_session_step] .

lemma reloaded_system_facts:
  "map_option biome (map_of (world (game second_session)) ''2,0'') = Some (Some REALITY_NODE)"
  "map_option hasPuzzle (map_of (world (game second_session)) ''2,0'') = Some (Some True)"
  "map_option biome (map_of (world (game reloaded_system)) ''2,0'') = Some (Some DATA_WASTELAND)"
  "map_option hasPuzzle (map_of (world (game reloaded_system)) ''2,0'') = Some (Some False)"
  by code_simp+

lemma explored_system_tile:
  "map_of (world (game (init_system 0 draws12 None))) (tile_key 0 0) \<noteq> None"
  "step (KeyMove 1 0 draws12) (init_system 0 draws12 None) \<noteq> None"
  by code_simp+

lemma neighbourhood_list:
  "neighbourhood px py =
     [(px - 1, py - 1), (px, py - 1), (px + 1, py - 1),
      (px - 1, py), (px, py), (px + 1, py),
      (px - 1, py + 1), (px, py + 1), (px + 1, py + 1)]"
  by (simp add: neighbourhood_def)

lemma neighbourhood_iff:
  "(x, y) \<in> set (neighbourhood px py) \<longleftrightarrow> \<bar>x - px\<bar> \<le> 1 \<and> \<bar>y - py\<bar> \<le> 1"
proof -
  have "(x, y) \<in> set (neighbourhood px py) \<longleftrightarrow>
          (x = px - 1 \<or> x = px \<or> x = px + 1) \<and> (y = py - 1 \<or> y = py \<or> y = py + 1)"
    unfolding neighbourhood_list by simp blast
  also have "\<dots> \<longleftrightarrow> \<bar>x - px\<bar> \<le> 1 \<and> \<bar>y - py\<bar> \<le> 1"
    by arith
  finally show ?thesis .
qed

lemma tile_step_present: "tile_step old new \<Longrightarrow> old \<noteq> None \<Longrightarrow> new \<noteq> None"
  by (auto simp: tile_step_def split: option.splits)

lemma ensure_all_present:
  "(x, y) \<in> set cs \<Longrightarrow> map_of (world (ensure_all rnd i cs s)) (tile_key x y) \<noteq> None"
proof (induction rnd i cs s rule: ensure_all.induct)
  case (1 rnd i s)
  then show ?case by simp
next
  case (2 rnd i x' y' cs s)
  show ?case
  proof (cases "(x, y) = (x', y')")
    case True
    have "map_of (world (ensureTileExists x' y' (rnd (2 * i)) (rnd (2 * i + 1)) s)) (tile_key x y) \<noteq> None"
      using True ensureTileExists_present by simp
    then show ?thesis
      using tile_step_present [OF ensure_all_tile_step] by simp
  next
    case False
    with "2.prems" have "(x, y) \<in> set cs" by auto
    with "2.IH" show ?thesis by simp
  qed
qed

lemma position_effect_surrounds:
  assumes "\<bar>x - pos_x (position (player g))\<bar> \<le> 1" "\<bar>y - pos_y (position (player g))\<bar> \<le> 1"
  shows "map_of (world (fst (position_effect rnd g))) (tile_key x y) \<noteq> None"
  using assms
  by (simp add: position_effect_def Let_def ensure_all_present neighbourhood_iff)

lemma surrounded_iff:
  "surrounded g \<longleftrightarrow>
     (\<forall>x y. \<bar>x - pos_x (position (player g))\<bar> \<le> 1 \<and> \<bar>y - pos_y (position (player g))\<bar> \<le> 1
        \<longrightarrow> map_of (world g) (tile_key x y) \<noteq> None)"
proof -
  have "surrounded g \<longleftrightarrow>
     (\<forall>x y. (x, y) \<in> set (neighbourhood (pos_x (position (player g))) (pos_y (position (player g))))
        \<longrightarrow> map_of (world g) (tile_key x y) \<noteq> None)"
    unfolding surrounded_def list_all_iff by blast
  then show ?thesis
    by (simp only: neighbourhood_iff)
qed

lemma surroundedI:
  "(\<And>x y. \<bar>x - pos_x (position (player g))\<bar> \<le> 1 \<Longrightarrow> \<bar>y - pos_y (position (player g))\<bar> \<le> 1
      \<Longrightarrow> map_of (world g) (tile_key x y) \<noteq> None) \<Longrightarrow> surrounded g"
  unfolding surrounded_iff by blast

lemma surroundedD:
  "surrounded g \<Longrightarrow> \<bar>x - pos_x (position (player g))\<bar> \<le> 1 \<Longrightarrow> \<bar>y - pos_y (position (player g))\<bar> \<le> 1
     \<Longrightarrow> map_of (world g) (tile_key x y) \<noteq> None"
  unfolding surrounded_iff by blast

lemma position_effect_surrounded: "surrounded (fst (position_effect rnd g))"
  by (rule surroundedI) (simp add: position_effect_surrounds)

lemma surrounded_kept:
  assumes "surrounded g" "position (player g') = position (player g)"
    and "\<And>k. tile_step (map_of (world g) k) (map_of (world g') k)"
  shows "surrounded g'"
proof (rule surroundedI)
  fix x y
  assume "\<bar>x - pos_x (position (player g'))\<bar> \<le> 1" "\<bar>y - pos_y (position (player g'))\<bar> \<le> 1"
  with assms(1,2) have "map_of (world g) (tile_key x y) \<noteq> None"
    using surroundedD [of g x y] by simp
  with assms(3) show "map_of (world g') (tile_key x y) \<noteq> None"
    using tile_step_present by blast
qed

lemma handlePuzzleSolve_position [simp]:
  "position (player (fst (handlePuzzleSolve success uid now gs prev))) = position (player prev)"
  by (simp add: handlePuzzleSolve_def Let_def)

lemma enrichTileContent_resolve_player [simp]:
  "player (enrichTileContent_resolve x y content uid now prev) = player prev"
  by (simp add: enrichTileContent_resolve_def Let_def split: sum.splits)

lemma saveGame_player [simp]: "player (snd (saveGame ok uid now gs st prev)) = player prev"
  by (simp add: saveGame_def Let_def)

lemma step_position:
  assumes "step e sys = Some sys'" "\<not> is_load e" "\<forall>dx dy rnd. e \<noteq> KeyMove dx dy rnd"
  shows "position (player (game sys')) = position (player (game sys))"
proof (cases e)
  case (KeyMove dx dy rnd)
  with assms show ?thesis by simp
next
  case (TileClick x y uid now)
  with assms show ?thesis
    by (auto split: sum.splits dest: handleTileClick_begin_world)
next
  case (PuzzleResponse i uid year rnd outcome)
  with assms show ?thesis
    by (auto simp: handleTileClick_resolve_def split: if_splits prod.splits)
next
  case (ContentResponse i outcome uid now)
  with assms show ?thesis
    by (auto split: if_splits prod.splits)
next
  case (SubmitAnswer a)
  with assms show ?thesis
    by (auto split: option.splits sum.splits if_splits)
next
  case (SolveTimer i uid now)
  show ?thesis
  proof (cases "i < length (solve_timers sys)")
    case True
    with assms SolveTimer
    have "game sys' = fst (handlePuzzleSolve True uid now (solve_timers sys ! i) (game sys))"
      by (auto split: prod.splits)
    then show ?thesis by simp
  next
    case False
    with assms SolveTimer show ?thesis by simp
  qed
next
  case (LogTimer i uid now)
  with assms show ?thesis
    by (auto split: if_splits prod.splits)
next
  case CloseModal
  with assms show ?thesis
    by (auto simp: onClose_def split: if_splits)
next
  case (SaveClick ok uid now)
  with assms have "game sys' = snd (saveGame ok uid now (game sys) (storage sys) (game sys))"
    by (auto split: prod.splits)
  then show ?thesis by simp
next
  case (LoadClick uid now rnd)
  with assms show ?thesis by simp
qed

lemma loadGame_NotRestored:
  "loadGame uid now st prev = NotRestored g \<Longrightarrow> world g = world prev \<and> player g = player prev"
  by (auto simp: loadGame_def Let_def split: option.splits if_splits sum.splits)

lemma step_surrounded:
  assumes "surrounded (game sys)" "step e sys = Some sys'"
  shows "surrounded (game sys')"
proof (cases "is_load e \<or> (\<exists>dx dy rnd. e = KeyMove dx dy rnd)")
  case False
  then have "position (player (game sys')) = position (player (game sys))"
    using step_position [OF assms(2)] by blast
  moreover have "\<And>k. tile_step (map_of (world (game sys)) k) (map_of (world (game sys')) k)"
    using step_tile_step [OF assms(2)] False by blast
  ultimately show ?thesis
    using surrounded_kept [OF assms(1)] by blast
next
  case True
  then show ?thesis
  proof
    assume "is_load e"
    then obtain uid now rnd where e: "e = LoadClick uid now rnd"
      by (cases e) simp_all
    show ?thesis
    proof (cases "loadGame uid now (storage sys) (game sys)")
      case (NotRestored g)
      with assms e have "game sys' = g" by auto
      moreover from NotRestored have "world g = world (game sys) \<and> player g = player (game sys)"
        by (rule loadGame_NotRestored)
      ultimately show ?thesis
        using surrounded_kept [OF assms(1), of "game sys'"] by simp
    next
      case (Restored g)
      with assms e have "game sys' = fst (position_effect rnd g)"
        by (auto simp: run_position_effect_game)
      then show ?thesis
        by (simp add: position_effect_surrounded)
    next
      case (RestoredUntyped v)
      with assms e show ?thesis by simp
    qed
  next
    assume "\<exists>dx dy rnd. e = KeyMove dx dy rnd"
    then obtain dx dy rnd where e: "e = KeyMove dx dy rnd" by blast
    show ?thesis
    proof (cases "activePuzzle (game sys) \<noteq> None")
      case True
      with assms e show ?thesis by simp
    next
      case False
      with assms e have "game sys' = fst (position_effect rnd (fst (movePlayer dx dy (game sys) (game sys))))"
        by (auto simp: run_position_effect_game)
      then show ?thesis
        by (simp add: position_effect_surrounded)
    qed
  qed
qed

lemma reachable_surrounded: "reachable sys \<Longrightarrow> surrounded (game sys)"
proof (induction rule: reachable.induct)
  case (reachable_init now rnd)
  show ?case
    by (simp add: init_system_def run_position_effect_game position_effect_surrounded)
next
  case (reachable_restart sys now rnd)
  show ?case
    by (simp add: init_system_def run_position_effect_game position_effect_surrounded)
next
  case (reachable_step sys e sys')
  then show ?case
    using step_surrounded by blast
qed

lemma handleTileClick_begin_defined:
  assumes "surrounded gs"
  shows "\<exists>r. handleTileClick_begin x y uid now gs prev = Inr r"
proof (cases "\<bar>x - pos_x (position (player gs))\<bar> + \<bar>y - pos_y (position (player gs))\<bar> > 1")
  case True
  then show ?thesis
    by (simp add: handleTileClick_begin_def Let_def)
next
  case False
  then have "\<bar>x - pos_x (position (player gs))\<bar> \<le> 1" "\<bar>y - pos_y (position (player gs))\<bar> \<le> 1"
    by linarith+
  with assms have "map_of (world gs) (tile_key x y) \<noteq> None"
    using surroundedD by blast
  then obtain t where "map_of (world gs) (tile_key x y) = Some t"
    by blast
  then show ?thesis
    by (simp add: handleTileClick_begin_def Let_def)
qed

lemma reality_rule_step:
  assumes "reality_rule w" and "\<And>k. tile_step (map_of w k) (map_of w' k)"
  shows "reality_rule w'"
  unfolding reality_rule_def
proof (intro allI impI)
  fix k t'
  assume n: "map_of w' k = Some t'" and b: "biome t' = Some REALITY_NODE"
  from assms(2) [of k] n have ts: "tile_step (map_of w k) (Some t')" by simp
  show "hasPuzzle t' = Some True"
  proof (cases "map_of w k")
    case None
    with ts b show ?thesis by (simp add: tile_step_def)
  next
    case (Some t)
    with ts have "biome t' = biome t" "hasPuzzle t' = hasPuzzle t"
      by (simp_all add: tile_step_def)
    with assms(1) Some b show ?thesis
      by (simp add: reality_rule_def)
  qed
qed


lemma reality_rule_reread: "reality_rule (world g) \<Longrightarrow> reality_rule (world (reread_state g))"
  by (auto simp: reality_rule_def reread_state_def reread_tile_def map_of_map)

lemma reality_rule_empty: "reality_rule []"
  by (simp add: reality_rule_def)

lemma step_storage:
  assumes "step e sys = Some sys'"
  shows "storage sys' = storage sys
       \<or> storage sys' = Some (JsonText (state_to_json ((game sys)\<lparr> isGenerating := False \<rparr>)))"
proof (cases e)
  case (KeyMove dx dy rnd)
  with assms show ?thesis by (auto split: if_splits)
next
  case (TileClick x y uid now)
  with assms show ?thesis by (auto split: sum.splits)
next
  case (PuzzleResponse i uid year rnd outcome)
  with assms show ?thesis by (auto split: if_splits prod.splits)
next
  case (ContentResponse i outcome uid now)
  with assms show ?thesis by (auto split: if_splits prod.splits)
next
  case (SubmitAnswer a)
  with assms show ?thesis by (auto split: option.splits sum.splits if_splits)
next
  case (SolveTimer i uid now)
  with assms show ?thesis by (auto split: if_splits prod.splits)
next
  case (LogTimer i uid now)
  with assms show ?thesis by (auto split: if_splits prod.splits)
next
  case CloseModal
  with assms show ?thesis by (auto split: if_splits)
next
  case (SaveClick ok uid now)
  with assms show ?thesis by (auto simp: saveGame_def Let_def split: if_splits)
next
  case (LoadClick uid now rnd)
  with assms show ?thesis by (auto split: load_result.splits)
qed

lemma reachable_reality_rule:
  "reachable sys \<Longrightarrow>
     reality_rule (world (game sys))
   \<and> (\<forall>b. storage sys = Some b \<longrightarrow> (\<exists>g. b = JsonText (state_to_json g) \<and> reality_rule (world g)))"
proof (induction rule: reachable.induct)
  case (reachable_init now rnd)
  have "reality_rule (world (fst (position_effect rnd (initialGameState now))))"
    by (rule reality_rule_step [OF _ position_effect_tile_step])
       (simp add: initialGameState_def reality_rule_empty)
  then show ?case
    by (simp add: init_system_def run_position_effect_game)
next
  case (reachable_restart sys now rnd)
  have "reality_rule (world (fst (position_effect rnd (initialGameState now))))"
    by (rule reality_rule_step [OF _ position_effect_tile_step])
       (simp add: initialGameState_def reality_rule_empty)
  with reachable_restart.IH show ?case
    by (simp add: init_system_def run_position_effect_game)
next
  case (reachable_step sys e sys')
  then have w: "reality_rule (world (game sys))"
    and st: "\<forall>b. storage sys = Some b \<longrightarrow> (\<exists>g. b = JsonText (state_to_json g) \<and> reality_rule (world g))"
    by simp_all
  have st': "\<forall>b. storage sys' = Some b \<longrightarrow> (\<exists>g. b = JsonText (state_to_json g) \<and> reality_rule (world g))"
  proof -
    from step_storage [OF reachable_step.hyps(2)]
    show ?thesis
    proof
      assume "storage sys' = storage sys"
      with st show ?thesis by simp
    next
      assume s: "storage sys' = Some (JsonText (state_to_json ((game sys)\<lparr> isGenerating := False \<rparr>)))"
      have "reality_rule (world ((game sys)\<lparr> isGenerating := False \<rparr>))"
        using w by simp
      with s show ?thesis by auto
    qed
  qed
  have w': "reality_rule (world (game sys'))"
  proof (cases "is_load e")
    case False
    show ?thesis
      using reality_rule_step [OF w] step_tile_step [OF reachable_step.hyps(2) False] by blast
  next
    case True
    then obtain uid now rnd where e: "e = LoadClick uid now rnd"
      by (cases e) simp_all
    show ?thesis
    proof (cases "storage sys")
      case None
      then have "loadGame uid now (storage sys) (game sys)
                   = NotRestored (addLog ''NO BACKUP FOUND IN LOCAL STORAGE.'' ''warning'' uid now (game sys))"
        by (simp add: loadGame_def Let_def)
      with reachable_step.hyps(2) e w show ?thesis
        by auto
    next
      case (Some b)
      with st obtain g where g: "b = JsonText (state_to_json g)" "reality_rule (world g)"
        by blast
      with Some have "loadGame uid now (storage sys) (game sys)
            = Restored (addLog ''SYSTEM RESTORED FROM BACKUP. [STATE LOADED]'' ''success'' uid now (reread_state g))"
        by (simp add: loadGame_saved)
      with reachable_step.hyps(2) e
      have "game sys' = fst (position_effect rnd
              (addLog ''SYSTEM RESTORED FROM BACKUP. [STATE LOADED]'' ''success'' uid now (reread_state g)))"
        by (auto simp: run_position_effect_game)
      moreover have "reality_rule (world (addLog ''SYSTEM RESTORED FROM BACKUP. [STATE LOADED]'' ''success''
                                           uid now (reread_state g)))"
        using reality_rule_reread [OF g(2)] by simp
      ultimately show ?thesis
        using reality_rule_step [OF _ position_effect_tile_step] by metis
    qed
  qed
  from w' st' show ?case ..
qed

lemma submitted_system_run:
  "run [KeyMove 1 0 draws12, PuzzleResponse 0 ''p'' 2026 draws12 Rejects, SubmitAnswer ''4'']
     pending_system = Some submitted_system"
  unfolding submitted_system_def by code_simp

lemma misplaced_system_step: "step (SolveTimer 0 ''s'' 2) submitted_system = Some misplaced_system"
  unfolding misplaced_system_def by code_simp

lemma solved_system_run:
  "run [SaveClick True ''v'' 1, SubmitAnswer ''4'', SolveTimer 0 ''t'' 2] active_system
     = Some solved_system"
  unfolding solved_system_def by code_simp

lemma regressed_system_step: "step (LoadClick ''l'' 3 draws12) solved_system = Some regressed_system"
  unfolding regressed_system_def by code_simp

lemma submitted_system_reachable: "reachable submitted_system"
  using reachable_run [OF pending_system_reachable submitted_system_run] .

lemma misplaced_system_reachable: "reachable misplaced_system"
  using reachable_step [OF submitted_system_reachable misplaced_system_step] .

lemma solved_system_reachable: "reachable solved_system"
  using reachable_run [OF active_system_reachable solved_system_run] .

lemma reality_system_reachable: "reachable reality_system"
  unfolding reality_system_def by (rule reachable_init)

lemma misplaced_system_facts:
  "map_option hasPuzzle (map_of (world (game misplaced_system)) ''1,0'') = Some (Some False)"
  "map_option isSolved (map_of (world (game misplaced_system)) ''1,0'') = Some (Some True)"
  "map_option isSolved (map_of (world (game submitted_system)) ''1,0'') = Some (Some False)"
  by code_simp+

lemma regressed_system_facts:
  "map_option isSolved (map_of (world (game solved_system)) ''0,0'') = Some (Some True)"
  "map_option hasPuzzle (map_of (world (game solved_system)) ''0,0'') = Some (Some True)"
  "map_option isSolved (map_of (world (game regressed_system)) ''0,0'') = Some (Some False)"
  by code_simp+

lemma reality_system_facts:
  "map_option biome (map_of (world (game reality_system)) ''0,0'') = Some (Some REALITY_NODE)"
  by code_simp








lemma enrichTileContent_begin_returns:
  "enrichTileContent_begin x y prev = (prev\<lparr> isGenerating := False \<rparr>, None)"
  by (simp add: enrichTileContent_begin_def Let_def split: option.splits)

lemma run_position_effect_requests [simp]:
  "enrich_requests (run_position_effect rnd sys) = enrich_requests sys"
  by (simp add: run_position_effect_def position_effect_def Let_def enrichTileContent_begin_returns)




lemma double_submission_progress:
  "map_option progress_of (run double_submission (init_system 0 puzzles_everywhere None))
     = Some \<lparr> experience = 400, reached_level = 1, grants_logged = 4, resolutions_due = 2,
              level_ups_reported = 0 \<rparr>"
  "map_option progress_of
     (run (double_submission @ [SolveTimer 0 ''s'' 2]) (init_system 0 puzzles_everywhere None))
     = Some \<lparr> experience = 500, reached_level = 2, grants_logged = 5, resolutions_due = 1,
              level_ups_reported = 1 \<rparr>"
  "map_option progress_of
     (run (double_submission @ [SolveTimer 0 ''s'' 2, SolveTimer 0 ''t'' 3])
        (init_system 0 puzzles_everywhere None))
     = Some \<lparr> experience = 500, reached_level = 2, grants_logged = 6, resolutions_due = 0,
              level_ups_reported = 2 \<rparr>"
  by code_simp+

lemma step_KeyMove_total: "\<exists>sys'. step (KeyMove dx dy rnd) sys = Some sys'"
  by simp

lemma content_kept_refl [simp]: "content_kept a a"
  by (simp add: content_kept_def split: option.splits)







subsection \<open>Progression\<close>

text \<open>
  C6. A correct resolution is to add 100 experience, set the level to
  \<open>floor(experience / 500) + 1\<close> and report a level-up when that level exceeds the
  previous one. The session reached by \<open>double_submission\<close> stands at experience 400,
  level 1, four grants logged, with two resolutions due. The first resolution does as
  the claim says: experience 500, level 2, a fifth grant logged, one level-up reported.
  The second, whose handler still holds the session as it was at the submission, logs
  a sixth grant but leaves the experience at 500, and reports a second level-up
  although the level it computes, 2, is the level the session already has.
\<close>

theorem double_submission_resolved_twice:
  "(\<exists>sys. reachable sys
        \<and> run (double_submission @ [SolveTimer 0 ''s'' 2, SolveTimer 0 ''t'' 3])
             (init_system 0 puzzles_everywhere None) = Some sys)
 \<and> map_option progress_of (run double_submission (init_system 0 puzzles_everywhere None))
     = Some \<lparr> experience = 400, reached_level = 1, grants_logged = 4, resolutions_due = 2,
              level_ups_reported = 0 \<rparr>
 \<and> map_option progress_of
     (run (double_submission @ [SolveTimer 0 ''s'' 2]) (init_system 0 puzzles_everywhere None))
     = Some \<lparr> experience = 500, reached_level = 2, grants_logged = 5, resolutions_due = 1,
              level_ups_reported = 1 \<rparr>
 \<and> map_option progress_of
     (run (double_submission @ [SolveTimer 0 ''s'' 2, SolveTimer 0 ''t'' 3])
        (init_system 0 puzzles_everywhere None))
     = Some \<lparr> experience = 500, reached_level = 2, grants_logged = 6, resolutions_due = 0,
              level_ups_reported = 2 \<rparr>"
proof -
  obtain sys where sys: "run (double_submission @ [SolveTimer 0 ''s'' 2, SolveTimer 0 ''t'' 3])
             (init_system 0 puzzles_everywhere None) = Some sys"
    using double_submission_progress(3) by blast
  then have "reachable sys"
    using reachable_run [OF reachable_init] by blast
  with sys double_submission_progress show ?thesis
    by blast
qed

subsection \<open>Grounded puzzles\<close>



subsection \<open>Movement\<close>

text \<open>
  C3, as the code has it. A move is rejected, and the whole application state left as
  it is, exactly while a puzzle is attached (\<open>activePuzzle\<close>); in every other state,
  whether or not a puzzle request is in flight, it translates the position by the
  delta, with no bounds check.
\<close>

theorem move_locked_only_while_puzzle_attached:
  "(activePuzzle (game sys) \<noteq> None \<longrightarrow> step (KeyMove dx dy rnd) sys = Some sys)
 \<and> (activePuzzle (game sys) = None \<longrightarrow>
      (\<exists>sys'. step (KeyMove dx dy rnd) sys = Some sys'
            \<and> position (player (game sys'))
                = \<lparr> pos_x = pos_x (position (player (game sys))) + dx,
                    pos_y = pos_y (position (player (game sys))) + dy \<rparr>))"
  by (simp add: movePlayer_def Let_def)

theorem move_locked_only_while_puzzle_attached_witness:
  "activePuzzle (game active_system) \<noteq> None
 \<and> step (KeyMove 1 0 draws12) active_system = Some active_system
 \<and> activePuzzle (game pending_system) = None
 \<and> (\<exists>sys'. step (KeyMove 1 0 draws12) pending_system = Some sys'
          \<and> position (player (game sys')) = \<lparr> pos_x = 0 + 1, pos_y = 0 + 0 \<rparr>)"
  using move_locked_only_while_puzzle_attached [of active_system 1 0 draws12]
        move_locked_only_while_puzzle_attached [of pending_system 1 0 draws12]
        active_system_puzzle pending_system_facts
  by simp

text \<open>
  C3 as stated fails while the puzzle is pending: after the player has interacted with
  the puzzle tile at \<open>(0,0)\<close> and before the puzzle arrives, a move to the right is
  carried out.
\<close>

theorem move_while_pending_counterexample:
  "reachable pending_system
 \<and> puzzle_requests pending_system = [(Some DATA_WASTELAND, 1)]
 \<and> activePuzzle (game pending_system) = None
 \<and> position (player (game pending_system)) = \<lparr> pos_x = 0, pos_y = 0 \<rparr>
 \<and> step (KeyMove 1 0 draws12) pending_system \<noteq> None
 \<and> position (player (game (the (step (KeyMove 1 0 draws12) pending_system)))) = \<lparr> pos_x = 1, pos_y = 0 \<rparr>"
proof -
  have "step (KeyMove 1 0 draws12) pending_system \<noteq> None"
    "position (player (game (the (step (KeyMove 1 0 draws12) pending_system)))) = \<lparr> pos_x = 1, pos_y = 0 \<rparr>"
    by code_simp+
  with pending_system_reachable pending_system_facts show ?thesis
    by simp
qed

subsection \<open>Answer validation\<close>



subsection \<open>Content provider: failures and malformed responses\<close>

text \<open>
  C4, as the code has it. Neither operation raises: each is a total function of the
  backend's outcome. \<open>generateTileContent\<close> returns its fallback when the call rejects
  and when the text is absent, empty or not JSON, and otherwise returns whatever the
  text parses to, unchecked. \<open>generatePuzzle\<close> returns its fallback when the call
  rejects and when the text is not JSON or parses to \<open>null\<close>; when the text parses to
  an object it returns a puzzle with the object's \<open>question\<close>, \<open>type\<close>, \<open>options\<close>
  and \<open>answer\<close>, each \<open>undefined\<close> if the object lacks it, and an absent or empty
  text is read as the empty object. The grounded path falls back in the same cases,
  and likewise passes on an absent \<open>correctAnswer\<close>.
\<close>

theorem content_provider_fallback_policy:
  "generateTileContent Rejects x y b = tile_fallback
 \<and> (response_text r = None \<or> response_text r = Some EmptyText \<or> response_text r = Some Malformed
      \<longrightarrow> generateTileContent (Responds r) x y b = tile_fallback)
 \<and> (response_text r = Some (JsonText v) \<longrightarrow> generateTileContent (Responds r) x y b = v)
 \<and> (pb \<noteq> Some REALITY_NODE \<longrightarrow>
      generatePuzzle uid year rnd Rejects pb d = puzzle_fallback uid
    \<and> (response_text r = Some Malformed \<or> response_text r = Some (JsonText Null)
         \<longrightarrow> generatePuzzle uid year rnd (Responds r) pb d = puzzle_fallback uid)
    \<and> (response_text r = Some (JsonText (Obj fs)) \<longrightarrow>
         generatePuzzle uid year rnd (Responds r) pb d =
           \<lparr> puzzle_id = uid, question = field fs ''question'', puzzle_type = field fs ''type'',
             options = field fs ''options'', answer = field fs ''answer'', solved = False,
             groundingUrls = None \<rparr>)
    \<and> (response_text r = None \<or> response_text r = Some EmptyText \<longrightarrow>
         generatePuzzle uid year rnd (Responds r) pb d =
           \<lparr> puzzle_id = uid, question = Undefined, puzzle_type = Undefined,
             options = Undefined, answer = Undefined, solved = False, groundingUrls = None \<rparr>))
 \<and> generatePuzzle uid year rnd Rejects (Some REALITY_NODE) d = reality_fallback uid year
 \<and> (response_text r = Some Malformed \<or> response_text r = Some (JsonText Null)
      \<longrightarrow> generatePuzzle uid year rnd (Responds r) (Some REALITY_NODE) d = reality_fallback uid year)
 \<and> (response_text r = Some (JsonText (Obj fs)) \<and> field fs ''wrongOptions'' = Undefined
      \<longrightarrow> answer (generatePuzzle uid year rnd (Responds r) (Some REALITY_NODE) d)
            = field fs ''correctAnswer'')"
proof -
  have tile: "generateTileContent Rejects x y b = tile_fallback
     \<and> (response_text r = None \<or> response_text r = Some EmptyText \<or> response_text r = Some Malformed
          \<longrightarrow> generateTileContent (Responds r) x y b = tile_fallback)
     \<and> (response_text r = Some (JsonText v) \<longrightarrow> generateTileContent (Responds r) x y b = v)"
    by (auto simp: generateTileContent_def)
  have plain: "pb \<noteq> Some REALITY_NODE \<longrightarrow>
      generatePuzzle uid year rnd Rejects pb d = puzzle_fallback uid
    \<and> (response_text r = Some Malformed \<or> response_text r = Some (JsonText Null)
         \<longrightarrow> generatePuzzle uid year rnd (Responds r) pb d = puzzle_fallback uid)
    \<and> (response_text r = Some (JsonText (Obj fs)) \<longrightarrow>
         generatePuzzle uid year rnd (Responds r) pb d =
           \<lparr> puzzle_id = uid, question = field fs ''question'', puzzle_type = field fs ''type'',
             options = field fs ''options'', answer = field fs ''answer'', solved = False,
             groundingUrls = None \<rparr>)
    \<and> (response_text r = None \<or> response_text r = Some EmptyText \<longrightarrow>
         generatePuzzle uid year rnd (Responds r) pb d =
           \<lparr> puzzle_id = uid, question = Undefined, puzzle_type = Undefined,
             options = Undefined, answer = Undefined, solved = False, groundingUrls = None \<rparr>)"
    by (auto simp: generatePuzzle_def text_or_empty_object_def field_def)
  have grounded: "generatePuzzle uid year rnd Rejects (Some REALITY_NODE) d = reality_fallback uid year
     \<and> (response_text r = Some Malformed \<or> response_text r = Some (JsonText Null)
          \<longrightarrow> generatePuzzle uid year rnd (Responds r) (Some REALITY_NODE) d = reality_fallback uid year)
     \<and> (response_text r = Some (JsonText (Obj fs)) \<and> field fs ''wrongOptions'' = Undefined
          \<longrightarrow> answer (generatePuzzle uid year rnd (Responds r) (Some REALITY_NODE) d)
                = field fs ''correctAnswer'')"
    using generateRealityPuzzle_cases by (auto simp: generatePuzzle_def)
  from tile plain grounded show ?thesis
    by blast
qed

theorem content_provider_fallback_policy_witness:
  "response_text malformed_response = Some Malformed
 \<and> generateTileContent (Responds malformed_response) 0 0 (Some NEON_FOREST) = tile_fallback
 \<and> generatePuzzle ''id'' 2026 draws12 (Responds malformed_response) (Some NEON_FOREST) 1 = puzzle_fallback ''id''
 \<and> generatePuzzle ''id'' 2026 draws12 (Responds malformed_response) (Some REALITY_NODE) 1 = reality_fallback ''id'' 2026
 \<and> response_text no_text_response = None
 \<and> generateTileContent (Responds no_text_response) 0 0 (Some NEON_FOREST) = tile_fallback
 \<and> answer (generatePuzzle ''id'' 2026 draws12 (Responds no_text_response) (Some NEON_FOREST) 1) = Undefined
 \<and> response_text partial_response = Some (JsonText (Obj [(''question'', Str ''Q'')]))
 \<and> generateTileContent (Responds partial_response) 0 0 (Some NEON_FOREST) = Obj [(''question'', Str ''Q'')]
 \<and> question (generatePuzzle ''id'' 2026 draws12 (Responds partial_response) (Some NEON_FOREST) 1) = Str ''Q''
 \<and> answer (generatePuzzle ''id'' 2026 draws12 (Responds partial_response) (Some NEON_FOREST) 1) = Undefined
 \<and> answer (generatePuzzle ''id'' 2026 draws12 (Responds partial_response) (Some REALITY_NODE) 1) = Undefined"
  using content_provider_fallback_policy
          [where x = 0 and y = 0 and b = "Some NEON_FOREST" and r = malformed_response
             and pb = "Some NEON_FOREST" and uid = "''id''" and year = 2026 and rnd = draws12 and d = 1]
        content_provider_fallback_policy
          [where x = 0 and y = 0 and b = "Some NEON_FOREST" and r = no_text_response
             and pb = "Some NEON_FOREST" and uid = "''id''" and year = 2026 and rnd = draws12 and d = 1]
        content_provider_fallback_policy
          [where x = 0 and y = 0 and b = "Some NEON_FOREST" and r = partial_response
             and v = "Obj [(''question'', Str ''Q'')]" and fs = "[(''question'', Str ''Q'')]"
             and pb = "Some NEON_FOREST" and uid = "''id''" and year = 2026 and rnd = draws12 and d = 1]
  by (simp add: malformed_response_def no_text_response_def partial_response_def field_def)

text \<open>
  C4 as stated fails on a response that lacks fields: the text \<open>{"question": "Q"}\<close> is
  returned as the tile content as it is, and yields a puzzle without an answer; neither
  is the fallback that a rejected call yields.
\<close>

theorem malformed_response_counterexample:
  "generateTileContent (Responds partial_response) 0 0 (Some NEON_FOREST) = Obj [(''question'', Str ''Q'')]
 \<and> generateTileContent (Responds partial_response) 0 0 (Some NEON_FOREST) \<noteq> generateTileContent Rejects 0 0 (Some NEON_FOREST)
 \<and> question (generatePuzzle ''id'' 2026 draws12 (Responds partial_response) (Some NEON_FOREST) 1) = Str ''Q''
 \<and> answer (generatePuzzle ''id'' 2026 draws12 (Responds partial_response) (Some NEON_FOREST) 1) = Undefined
 \<and> generatePuzzle ''id'' 2026 draws12 (Responds partial_response) (Some NEON_FOREST) 1
     \<noteq> generatePuzzle ''id'' 2026 draws12 Rejects (Some NEON_FOREST) 1"
  by (simp add: partial_response_def generateTileContent_def generatePuzzle_def tile_fallback_def
        puzzle_fallback_def text_or_empty_object_def)

subsection \<open>Tile enrichment\<close>



subsection \<open>Save and load\<close>

text \<open>
  C8, as the code has it. For a session stable under saving, \<open>saveGame\<close> followed at
  once by \<open>loadGame\<close> restores the player, the tile mapping and the attached puzzle
  of the session saved, with the generation flag false; the log is the log of the
  session saved (without the entry that \<open>saveGame\<close> itself appended) followed by the
  one entry that \<open>loadGame\<close> appends. A stored text that parses to a value without a
  truthy \<open>player\<close> or \<open>world\<close> leaves the session as it is but for one error entry.
\<close>

theorem save_then_load:
  "(json_stable s \<longrightarrow>
      (\<exists>stored s1 s2.
          saveGame True u1 n1 s old s = (Some stored, s1)
        \<and> loadGame u2 n2 (Some stored) s1 = Restored s2
        \<and> player s2 = player s \<and> world s2 = world s \<and> activePuzzle s2 = activePuzzle s
        \<and> isGenerating s2 = False
        \<and> logs s2 = logs s @ [RESTORED_LOG u2 n2]))
 \<and> (JSON_parse blob = Inr v
      \<and> (\<not> (\<exists>p. get_prop v ''player'' = Inr p \<and> truthy p)
         \<or> \<not> (\<exists>w. get_prop v ''world'' = Inr w \<and> truthy w))
      \<longrightarrow> loadGame u2 n2 (Some blob) prev
            = NotRestored (addLog ''RESTORE FAILED: CORRUPT DATA.'' ''error'' u2 n2 prev))"
proof -
  have 1: "json_stable s \<longrightarrow>
      (\<exists>stored s1 s2.
          saveGame True u1 n1 s old s = (Some stored, s1)
        \<and> loadGame u2 n2 (Some stored) s1 = Restored s2
        \<and> player s2 = player s \<and> world s2 = world s \<and> activePuzzle s2 = activePuzzle s
        \<and> isGenerating s2 = False
        \<and> logs s2 = logs s @ [RESTORED_LOG u2 n2])"
  proof
    assume "json_stable s"
    then have st: "reread_state s = s"
      by (simp add: json_stable_def)
    have "loadGame u2 n2 (Some (JsonText (state_to_json (s\<lparr> isGenerating := False \<rparr>))))
            (addLog ''SYSTEM BACKUP COMPLETE. [STATE SAVED]'' ''success'' u1 n1 s)
          = Restored (addLog ''SYSTEM RESTORED FROM BACKUP. [STATE LOADED]'' ''success'' u2 n2
                        (s\<lparr> isGenerating := False \<rparr>))"
      by (simp add: loadGame_saved reread_state_isGenerating st)
    then show "\<exists>stored s1 s2.
          saveGame True u1 n1 s old s = (Some stored, s1)
        \<and> loadGame u2 n2 (Some stored) s1 = Restored s2
        \<and> player s2 = player s \<and> world s2 = world s \<and> activePuzzle s2 = activePuzzle s
        \<and> isGenerating s2 = False
        \<and> logs s2 = logs s @ [RESTORED_LOG u2 n2]"
      by (simp add: saveGame_def Let_def addLog_def RESTORED_LOG_def)
  qed
  from 1 loadGame_invalid [of blob v u2 n2 prev] show ?thesis
    by blast
qed


theorem save_then_load_witness:
  "json_stable (game (init_system 0 draws12 None))
 \<and> (\<exists>stored s1 s2.
        saveGame True ''s'' 1 (game (init_system 0 draws12 None)) None (game (init_system 0 draws12 None))
          = (Some stored, s1)
      \<and> loadGame ''l'' 2 (Some stored) s1 = Restored s2
      \<and> world s2 = world (game (init_system 0 draws12 None))
      \<and> logs s2 = logs (game (init_system 0 draws12 None)) @ [RESTORED_LOG ''l'' 2])
 \<and> JSON_parse (JsonText (Obj [(''player'', Obj [])])) = Inr (Obj [(''player'', Obj [])])
 \<and> get_prop (Obj [(''player'', Obj [])]) ''world'' = Inr Undefined
 \<and> loadGame ''l'' 2 (Some (JsonText (Obj [(''player'', Obj [])]))) holey_state
     = NotRestored (addLog ''RESTORE FAILED: CORRUPT DATA.'' ''error'' ''l'' 2 holey_state)"
  using save_then_load
          [where s = "game (init_system 0 draws12 None)" and ?u1.0 = "''s''" and ?n1.0 = 1 and old = None
             and ?u2.0 = "''l''" and ?n2.0 = 2 and blob = "JsonText (Obj [(''player'', Obj [])])"
             and v = "Obj [(''player'', Obj [])]" and prev = holey_state]
        init_system_stable
  by auto

text \<open>
  C8 as stated fails on the log: after start-up, save and load, the log is neither the
  log before the save nor the log after it. It also fails on an \<open>undefined\<close> array
  element, which reads back as \<open>null\<close>.
\<close>

theorem save_then_load_counterexample:
  "step (SaveClick True ''s'' 1) (init_system 0 draws12 None) = Some saved_system
 \<and> logs (game (init_system 0 draws12 None)) = [INITIAL_LOG 0]
 \<and> logs (game saved_system)
     = [INITIAL_LOG 0,
        \<lparr> log_id = ''s'', timestamp = 1, message = ''SYSTEM BACKUP COMPLETE. [STATE SAVED]'',
          log_type = ''success'' \<rparr>]
 \<and> map_option logs (restored_of (loadGame ''l'' 2 (storage saved_system) (game saved_system)))
     = Some [INITIAL_LOG 0, RESTORED_LOG ''l'' 2]
 \<and> map_option options (activePuzzle holey_state) = Some (Arr [Str ''A'', Undefined])
 \<and> map_option options
      (Option.bind
         (restored_of (loadGame ''l'' 2 (fst (saveGame True ''s'' 1 holey_state None holey_state))
                                       (snd (saveGame True ''s'' 1 holey_state None holey_state))))
         activePuzzle)
     = Some (Arr [Str ''A'', Null])"
  unfolding saved_system_def by code_simp

subsection \<open>Tile creation\<close>

text \<open>
  C5, as the code has it. \<open>ensureTileExists\<close> on a coordinate that has a tile changes
  nothing, so a second call, whatever its draws, leaves what the first call made; and
  no event other than a load changes the biome or the puzzle flag of a tile that
  exists.
\<close>

theorem ensureTile_idempotent_nature_fixed:
  "(map_of (world prev) (tile_key x y) \<noteq> None \<longrightarrow> ensureTileExists x y r1 r2 prev = prev)
 \<and> ensureTileExists x y r3 r4 (ensureTileExists x y r1 r2 prev) = ensureTileExists x y r1 r2 prev
 \<and> (step e sys = Some sys' \<and> \<not> is_load e \<and> map_of (world (game sys)) k = Some t \<longrightarrow>
      (\<exists>t'. map_of (world (game sys')) k = Some t' \<and> biome t' = biome t \<and> hasPuzzle t' = hasPuzzle t))"
proof -
  have 1: "ensureTileExists x y r3 r4 (ensureTileExists x y r1 r2 prev) = ensureTileExists x y r1 r2 prev"
    by (rule ensureTileExists_noop) (rule ensureTileExists_present)
  have 2: "step e sys = Some sys' \<and> \<not> is_load e \<and> map_of (world (game sys)) k = Some t \<longrightarrow>
      (\<exists>t'. map_of (world (game sys')) k = Some t' \<and> biome t' = biome t \<and> hasPuzzle t' = hasPuzzle t)"
  proof
    assume a: "step e sys = Some sys' \<and> \<not> is_load e \<and> map_of (world (game sys)) k = Some t"
    then have "tile_step (Some t) (map_of (world (game sys')) k)"
      using step_tile_step [of e sys sys' k] by simp
    then show "\<exists>t'. map_of (world (game sys')) k = Some t' \<and> biome t' = biome t \<and> hasPuzzle t' = hasPuzzle t"
      using tile_step_Some by blast
  qed
  from 1 2 ensureTileExists_noop [of prev x y r1 r2] show ?thesis
    by blast
qed

theorem ensureTile_idempotent_nature_fixed_witness:
  "map_of (world (game (init_system 0 draws12 None))) (tile_key 0 0) \<noteq> None
 \<and> ensureTileExists 0 0 (1 / 10) (9 / 10) (game (init_system 0 draws12 None)) = game (init_system 0 draws12 None)
 \<and> step (KeyMove 1 0 draws12) (init_system 0 draws12 None)
     = Some (the (step (KeyMove 1 0 draws12) (init_system 0 draws12 None)))
 \<and> \<not> is_load (KeyMove 1 0 draws12)
 \<and> map_of (world (game (init_system 0 draws12 None))) (tile_key 0 0)
     = Some (the (map_of (world (game (init_system 0 draws12 None))) (tile_key 0 0)))
 \<and> (\<exists>t'. map_of (world (game (the (step (KeyMove 1 0 draws12) (init_system 0 draws12 None))))) (tile_key 0 0)
            = Some t'
        \<and> biome t' = biome (the (map_of (world (game (init_system 0 draws12 None))) (tile_key 0 0)))
        \<and> hasPuzzle t' = hasPuzzle (the (map_of (world (game (init_system 0 draws12 None))) (tile_key 0 0))))"
  using ensureTile_idempotent_nature_fixed
          [where prev = "game (init_system 0 draws12 None)" and x = 0 and y = 0 and ?r1.0 = "1 / 10"
             and ?r2.0 = "9 / 10" and e = "KeyMove 1 0 draws12" and sys = "init_system 0 draws12 None"
             and sys' = "the (step (KeyMove 1 0 draws12) (init_system 0 draws12 None))"
             and k = "tile_key 0 0"
             and t = "the (map_of (world (game (init_system 0 draws12 None))) (tile_key 0 0))"]
        explored_system_tile
  by auto


text \<open>
  C5 as stated fails on a load: in a session started after the save, the tile
  \<open>(2,0)\<close> is a reality node with a puzzle, and loading the save, in which it is a
  data wasteland without one, changes both.
\<close>

theorem load_changes_tile_counterexample:
  "reachable second_session
 \<and> map_option biome (map_of (world (game second_session)) ''2,0'') = Some (Some REALITY_NODE)
 \<and> map_option hasPuzzle (map_of (world (game second_session)) ''2,0'') = Some (Some True)
 \<and> step (LoadClick ''l'' 6 draws12) second_session = Some reloaded_system
 \<and> map_option biome (map_of (world (game reloaded_system)) ''2,0'') = Some (Some DATA_WASTELAND)
 \<and> map_option hasPuzzle (map_of (world (game reloaded_system)) ''2,0'') = Some (Some False)"
  using second_session_reachable reloaded_system_facts reloaded_system_step
  by simp

subsection \<open>Tiles around the player\<close>

text \<open>
  C10. In every state the application can reach (start-up, then any events: moves,
  interactions, responses, resolutions, saves, loads), every coordinate within one
  step of the player, diagonals included, has a tile; and \<open>handleTileClick\<close> never
  reads a property of an absent tile: beyond distance 1 it returns before the tile is
  read, and within distance 1 the tile exists.
\<close>

theorem neighbours_materialized:
  assumes "reachable sys"
  shows "(\<forall>x y. \<bar>x - pos_x (position (player (game sys)))\<bar> \<le> 1
              \<and> \<bar>y - pos_y (position (player (game sys)))\<bar> \<le> 1
              \<longrightarrow> map_of (world (game sys)) (tile_key x y) \<noteq> None)
       \<and> (\<forall>x y uid now. \<exists>r. handleTileClick_begin x y uid now (game sys) (game sys) = Inr r)"
proof -
  have s: "surrounded (game sys)"
    using assms by (rule reachable_surrounded)
  then have 1: "\<forall>x y. \<bar>x - pos_x (position (player (game sys)))\<bar> \<le> 1
              \<and> \<bar>y - pos_y (position (player (game sys)))\<bar> \<le> 1
              \<longrightarrow> map_of (world (game sys)) (tile_key x y) \<noteq> None"
    by (simp only: surrounded_iff)
  have 2: "\<forall>x y uid now. \<exists>r. handleTileClick_begin x y uid now (game sys) (game sys) = Inr r"
    using handleTileClick_begin_defined [OF s] by blast
  from 1 2 show ?thesis ..
qed


theorem neighbours_materialized_witness:
  "reachable pending_system
 \<and> \<bar>1 - pos_x (position (player (game pending_system)))\<bar> \<le> 1
 \<and> \<bar>- 1 - pos_y (position (player (game pending_system)))\<bar> \<le> 1
 \<and> map_of (world (game pending_system)) (tile_key 1 (- 1)) \<noteq> None
 \<and> (\<exists>r. handleTileClick_begin 1 0 ''c'' 3 (game pending_system) (game pending_system) = Inr r)"
  using neighbours_materialized [OF pending_system_reachable] pending_system_reachable
        pending_system_facts
  by simp

subsection \<open>Solved tiles and puzzle tiles\<close>

text \<open>
  C1, as the code has it. In every state the application can reach, a tile whose biome
  is the reality node has its puzzle flag set. No event other than a load takes a
  tile's \<open>isSolved\<close> away from true: the tile stays in the world and stays solved.
\<close>

theorem solved_and_puzzle_flags:
  "(reachable sys \<longrightarrow>
      (\<forall>k t. map_of (world (game sys)) k = Some t \<and> biome t = Some REALITY_NODE
              \<longrightarrow> hasPuzzle t = Some True))
 \<and> (step e sys = Some sys' \<and> \<not> is_load e
      \<and> map_of (world (game sys)) k = Some t \<and> isSolved t = Some True
      \<longrightarrow> (\<exists>t'. map_of (world (game sys')) k = Some t' \<and> isSolved t' = Some True))"
proof -
  have 1: "reachable sys \<longrightarrow>
      (\<forall>k t. map_of (world (game sys)) k = Some t \<and> biome t = Some REALITY_NODE
              \<longrightarrow> hasPuzzle t = Some True)"
  proof
    assume "reachable sys"
    then have "reality_rule (world (game sys))"
      using reachable_reality_rule by blast
    then show "\<forall>k t. map_of (world (game sys)) k = Some t \<and> biome t = Some REALITY_NODE
              \<longrightarrow> hasPuzzle t = Some True"
      unfolding reality_rule_def by blast
  qed
  have 3: "step e sys = Some sys' \<and> \<not> is_load e
      \<and> map_of (world (game sys)) k = Some t \<and> isSolved t = Some True
      \<longrightarrow> (\<exists>t'. map_of (world (game sys')) k = Some t' \<and> isSolved t' = Some True)"
  proof
    assume a: "step e sys = Some sys' \<and> \<not> is_load e
      \<and> map_of (world (game sys)) k = Some t \<and> isSolved t = Some True"
    then have "tile_step (Some t) (map_of (world (game sys')) k)"
      using step_tile_step [of e sys sys' k] by simp
    with a show "\<exists>t'. map_of (world (game sys')) k = Some t' \<and> isSolved t' = Some True"
      using tile_step_Some by blast
  qed
  from 1 3 show ?thesis ..
qed

theorem solved_and_puzzle_flags_witness:
  "reachable reality_system
 \<and> map_option biome (map_of (world (game reality_system)) ''0,0'') = Some (Some REALITY_NODE)
 \<and> map_option hasPuzzle (map_of (world (game reality_system)) ''0,0'') = Some (Some True)
 \<and> \<not> is_load (KeyMove 1 0 draws12)
 \<and> map_option isSolved (map_of (world (game solved_system)) ''0,0'') = Some (Some True)
 \<and> (\<exists>sys'. step (KeyMove 1 0 draws12) solved_system = Some sys'
        \<and> map_option isSolved (map_of (world (game sys')) ''0,0'') = Some (Some True))"
proof -
  obtain r where r: "map_of (world (game reality_system)) ''0,0'' = Some r" "biome r = Some REALITY_NODE"
    using reality_system_facts by auto
  obtain m where m: "map_of (world (game solved_system)) ''0,0'' = Some m" "isSolved m = Some True"
    using regressed_system_facts(1) by auto
  obtain nxt where nxt: "step (KeyMove 1 0 draws12) solved_system = Some nxt"
    using step_KeyMove_total by blast
  have l: "\<not> is_load (KeyMove 1 0 draws12)"
    by simp
  note inst1 = solved_and_puzzle_flags
    [where sys = reality_system and e = "KeyMove 1 0 draws12" and sys' = nxt and k = "''0,0''"
       and t = m]
  note inst2 = solved_and_puzzle_flags
    [where sys = solved_system and e = "KeyMove 1 0 draws12" and sys' = nxt and k = "''0,0''"
       and t = m]
  have a: "map_option hasPuzzle (map_of (world (game reality_system)) ''0,0'') = Some (Some True)"
    using inst1 reality_system_reachable r by auto
  have "\<exists>t'. map_of (world (game nxt)) ''0,0'' = Some t' \<and> isSolved t' = Some True"
    using inst2 [THEN conjunct2] nxt l m by blast
  then have b: "map_option isSolved (map_of (world (game nxt)) ''0,0'') = Some (Some True)"
    by auto
  from a b nxt l reality_system_reachable reality_system_facts regressed_system_facts(1)
  show ?thesis by blast
qed

text \<open>
  C1 as stated fails in two ways. The player who steps off the puzzle tile \<open>(0,0)\<close>
  while its puzzle is being generated resolves it on the tile \<open>(1,0)\<close>, which has no
  puzzle and becomes solved. And a tile solved after a save is unsolved again after
  the save is loaded.
\<close>

theorem solved_without_puzzle_counterexample:
  "reachable misplaced_system
 \<and> map_option hasPuzzle (map_of (world (game misplaced_system)) ''1,0'') = Some (Some False)
 \<and> map_option isSolved (map_of (world (game misplaced_system)) ''1,0'') = Some (Some True)
 \<and> reachable solved_system
 \<and> map_option isSolved (map_of (world (game solved_system)) ''0,0'') = Some (Some True)
 \<and> step (LoadClick ''l'' 3 draws12) solved_system = Some regressed_system
 \<and> map_option isSolved (map_of (world (game regressed_system)) ''0,0'') = Some (Some False)"
  using misplaced_system_reachable misplaced_system_facts solved_system_reachable
        regressed_system_facts regressed_system_step
  by simp

end
